theory Spec2Isabelle
  imports Main "HOL-Library.Word"
begin

section \<open>JavaScript values\<close>

text \<open>
  The provider handles untyped data: parsed JSON replies, the \<open>data\<close> of a cross-window
  message, thrown values. They are modelled by one datatype. \<open>JError name message\<close> is an
  \<open>Error\<close> object (\<open>new Error(message)\<close>, or a \<open>TypeError\<close> / \<open>ReferenceError\<close> raised
  by the engine). An object is the list of its own enumerable properties, in order.
\<close>

datatype jsval =
    JUndefined
  | JNull
  | JBool bool
  | JNum int
  | JStr string
  | JArr "jsval list"
  | JObj "(string \<times> jsval) list"
  | JError string string

text \<open>A settled or pending promise.\<close>

datatype outcome = Pending | Resolved jsval | Rejected jsval

text \<open>The value is an \<open>Error\<close> object.\<close>

fun is_error :: "jsval \<Rightarrow> bool" where
  "is_error (JError n m) = True"
| "is_error v = False"

text \<open>Truthiness, as \<open>if (response)\<close> tests it.\<close>

fun truthy :: "jsval \<Rightarrow> bool" where
  "truthy JUndefined = False"
| "truthy JNull = False"
| "truthy (JBool b) = b"
| "truthy (JNum n) = (n \<noteq> 0)"
| "truthy (JStr s) = (s \<noteq> [])"
| "truthy (JArr xs) = True"
| "truthy (JObj kvs) = True"
| "truthy (JError n m) = True"

text \<open>
  Property read \<open>v.k\<close>: a \<open>TypeError\<close> on \<open>undefined\<close> and \<open>null\<close>, the property's value
  on an object that has it, \<open>undefined\<close> otherwise. (Only names that no primitive, array
  or \<open>Error\<close> prototype defines are read by the provider: \<open>result\<close>, \<open>type\<close>, \<open>code\<close>,
  \<open>addr\<close>, \<open>accounts\<close>, \<open>authorizationId\<close>, \<open>status\<close>, \<open>transactionHash\<close>.)
\<close>

fun get_prop :: "jsval \<Rightarrow> string \<Rightarrow> jsval + jsval" where
  "get_prop JUndefined k = Inl (JError ''TypeError'' (''Cannot read properties of undefined (reading '' @ k @ '')''))"
| "get_prop JNull k = Inl (JError ''TypeError'' (''Cannot read properties of null (reading '' @ k @ '')''))"
| "get_prop (JObj kvs) k = Inr (case map_of kvs k of None \<Rightarrow> JUndefined | Some v \<Rightarrow> v)"
| "get_prop v k = Inr JUndefined"

text \<open>Sequencing of computations that may throw: \<open>Inl\<close> is the thrown value.\<close>

definition bindE :: "'e + 'a \<Rightarrow> ('a \<Rightarrow> 'e + 'b) \<Rightarrow> 'e + 'b" where
  "bindE x f = (case x of Inl e \<Rightarrow> Inl e | Inr v \<Rightarrow> f v)"

text \<open>Array indexing \<open>xs[i]\<close>: \<open>undefined\<close> (here \<open>None\<close>) out of range.\<close>

definition at_index :: "'a list \<Rightarrow> nat \<Rightarrow> 'a option" where
  "at_index xs i = (if i < length xs then Some (xs ! i) else None)"

section \<open>Base58 and hex (the bs58 and buffer packages)\<close>

text \<open>
  \<open>bs58.decode\<close>, \<open>PublicKey.toBase58\<close> and \<open>Buffer.toString('hex')\<close> come from the
  packages the provider imports. They are standard encodings and are written out here so
  that the codec can be evaluated: Base58 with the Bitcoin alphabet (a leading \<open>1\<close> is a
  zero byte, the rest is a big-endian number in base 58, a character outside the
  alphabet throws), and two lower-case hexadecimal digits per byte.
\<close>

type_synonym byte = "8 word"

definition b58_alphabet :: string where
  "b58_alphabet = ''123456789ABCDEFGHJKLMNPQRSTUVWXYZabcdefghijkmnopqrstuvwxyz''"

fun index_of :: "char \<Rightarrow> string \<Rightarrow> nat option" where
  "index_of c [] = None"
| "index_of c (d # ds) = (if c = d then Some 0 else map_option Suc (index_of c ds))"

fun b58_value :: "nat \<Rightarrow> string \<Rightarrow> jsval + nat" where
  "b58_value acc [] = Inr acc"
| "b58_value acc (c # cs) =
     (case index_of c b58_alphabet of
        None \<Rightarrow> Inl (JError ''Error'' ''Non-base58 character'')
      | Some d \<Rightarrow> b58_value (acc * 58 + d) cs)"

fun bytes_of_nat :: "nat \<Rightarrow> byte list" where
  "bytes_of_nat n = (if n = 0 then [] else bytes_of_nat (n div 256) @ [of_nat (n mod 256)])"

declare bytes_of_nat.simps [simp del]

definition bs58_decode :: "string \<Rightarrow> jsval + byte list" where
  "bs58_decode s =
     (case b58_value 0 s of
        Inl e \<Rightarrow> Inl e
      | Inr n \<Rightarrow> Inr (replicate (length (takeWhile (\<lambda>c. c = CHR ''1'') s)) 0 @ bytes_of_nat n))"

text \<open>The strings \<open>bs58.decode\<close> accepts: every character is in the alphabet.\<close>

definition is_base58 :: "string \<Rightarrow> bool" where
  "is_base58 s = list_all (\<lambda>c. c \<in> set b58_alphabet) s"

fun nat_of_bytes :: "nat \<Rightarrow> byte list \<Rightarrow> nat" where
  "nat_of_bytes acc [] = acc"
| "nat_of_bytes acc (b # bs) = nat_of_bytes (acc * 256 + unat b) bs"

fun b58_digits :: "nat \<Rightarrow> string" where
  "b58_digits n = (if n = 0 then [] else b58_digits (n div 58) @ [b58_alphabet ! (n mod 58)])"

declare b58_digits.simps [simp del]

definition bs58_encode :: "byte list \<Rightarrow> string" where
  "bs58_encode bs =
     replicate (length (takeWhile (\<lambda>b. b = 0) bs)) (CHR ''1'') @ b58_digits (nat_of_bytes 0 bs)"

definition hex_digit :: "nat \<Rightarrow> char" where
  "hex_digit d = ''0123456789abcdef'' ! d"

text \<open>\<open>buffer.toString('hex')\<close>\<close>

definition to_hex :: "byte list \<Rightarrow> string" where
  "to_hex bs = concat (map (\<lambda>b. [hex_digit (unat b div 16), hex_digit (unat b mod 16)]) bs)"

section \<open>Transaction codec: \<open>toTransaction\<close> and \<open>collectSignatures\<close>\<close>

text \<open>
  A public key is its 32 bytes; \<open>PublicKey.default\<close> is the all-zero key, whose Base58
  form is the string of 32 characters \<open>1\<close>.
\<close>

type_synonym PublicKey = "byte list"

definition PublicKey_default :: PublicKey where
  "PublicKey_default = replicate 32 0"

definition toBase58 :: "PublicKey \<Rightarrow> string" where
  "toBase58 k = bs58_encode k"

text \<open>
  The decoded wire message (\<open>Message\<close> of the Solana library). Its method
  \<open>isAccountWritable\<close> is a field: the provider only calls it.
\<close>

record message_header =
  numRequiredSignatures :: nat
  numReadonlySignedAccounts :: nat
  numReadonlyUnsignedAccounts :: nat

record compiled_instruction =
  programIdIndex :: nat
  ci_accounts :: "nat list"
  ci_data :: string

record message =
  header :: message_header
  accountKeys :: "PublicKey list"
  m_recentBlockhash :: string
  m_instructions :: "compiled_instruction list"
  isAccountWritable :: "nat \<Rightarrow> bool"

text \<open>
  The structured transaction. \<open>None\<close> is \<open>null\<close> for a signature and \<open>undefined\<close> for a
  key read past the end of \<open>accountKeys\<close> or a field never assigned.
\<close>

record account_meta =
  pubkey :: "PublicKey option"
  isSigner :: bool
  isWritable :: bool

record transaction_instruction =
  keys :: "account_meta list"
  programId :: "PublicKey option"
  data :: "byte list"

record signature_pubkey_pair =
  signature :: "byte list option"
  publicKey :: "PublicKey option"

record transaction =
  signatures :: "signature_pubkey_pair list"
  feePayer :: "PublicKey option"
  instructions :: "transaction_instruction list"
  recentBlockhash :: "string option"

text \<open>\<open>new Transaction()\<close>\<close>

definition new_Transaction :: transaction where
  "new_Transaction =
     \<lparr>signatures = [], feePayer = None, instructions = [], recentBlockhash = None\<rparr>"

text \<open>
  \<open>signatures.forEach((signature, index) => ... transaction.signatures.push(...))\<close>:
  the loop over the supplied signatures, from position \<open>index\<close> on. \<open>bs58.decode\<close> may
  throw, which ends \<open>toTransaction\<close>.
\<close>

fun push_signatures ::
  "message \<Rightarrow> nat \<Rightarrow> string list \<Rightarrow> transaction \<Rightarrow> jsval + transaction" where
  "push_signatures m index [] t = Inr t"
| "push_signatures m index (sg # rest) t =
     (if sg = toBase58 PublicKey_default
      then push_signatures m (Suc index) rest
             (t\<lparr>signatures := signatures t @
                 [\<lparr>signature = None, publicKey = at_index (accountKeys m) index\<rparr>]\<rparr>)
      else (case bs58_decode sg of
              Inl e \<Rightarrow> Inl e
            | Inr b \<Rightarrow> push_signatures m (Suc index) rest
                (t\<lparr>signatures := signatures t @
                    [\<lparr>signature = Some b, publicKey = at_index (accountKeys m) index\<rparr>]\<rparr>)))"

text \<open>\<open>instruction.accounts.map((account) => ({pubkey, isSigner, isWritable}))\<close>\<close>

definition instruction_keys :: "message \<Rightarrow> compiled_instruction \<Rightarrow> account_meta list" where
  "instruction_keys m instruction =
     map (\<lambda>account.
            \<lparr>pubkey = at_index (accountKeys m) account,
             isSigner = (account < numRequiredSignatures (header m)),
             isWritable = isAccountWritable m account\<rparr>)
         (ci_accounts instruction)"

text \<open>\<open>message.instructions.forEach((instruction) => ... transaction.instructions.push(...))\<close>\<close>

fun push_instructions ::
  "message \<Rightarrow> compiled_instruction list \<Rightarrow> transaction \<Rightarrow> jsval + transaction" where
  "push_instructions m [] t = Inr t"
| "push_instructions m (instruction # rest) t =
     (case bs58_decode (ci_data instruction) of
        Inl e \<Rightarrow> Inl e
      | Inr d \<Rightarrow> push_instructions m rest
          (t\<lparr>instructions := instructions t @
              [\<lparr>keys = instruction_keys m instruction,
                programId = at_index (accountKeys m) (programIdIndex instruction),
                data = d\<rparr>]\<rparr>))"

text \<open>
  \<open>toTransaction(raw, signatures)\<close>. \<open>Message_from\<close> stands for
  \<open>Message.from(Buffer.from(raw, 'hex'))\<close>, the wire decoder of the Solana library.
\<close>

definition toTransaction ::
  "(string \<Rightarrow> jsval + message) \<Rightarrow> string \<Rightarrow> string list \<Rightarrow> jsval + transaction" where
  "toTransaction Message_from raw sigs =
     bindE (Message_from raw) (\<lambda>m.
       let t0 = new_Transaction\<lparr>recentBlockhash := Some (m_recentBlockhash m)\<rparr>;
           t1 = (if numRequiredSignatures (header m) > 0
                 then t0\<lparr>feePayer := at_index (accountKeys m) 0\<rparr> else t0)
       in bindE (push_signatures m 0 sigs t1) (push_instructions m (m_instructions m)))"

text \<open>
  \<open>collectSignatures\<close>: the \<open>reduce\<close> over \<open>transaction.signatures\<close>. A stored buffer is
  truthy, \<open>null\<close> is not; reading \<open>toBase58\<close> of a missing key throws.
\<close>

fun collect ::
  "signature_pubkey_pair list \<Rightarrow> (string \<rightharpoonup> string) \<Rightarrow> jsval + (string \<rightharpoonup> string)" where
  "collect [] acc = Inr acc"
| "collect (cur # rest) acc =
     (case signature cur of
        None \<Rightarrow> collect rest acc
      | Some sg \<Rightarrow>
          (case publicKey cur of
             None \<Rightarrow> Inl (JError ''TypeError'' ''Cannot read properties of undefined (reading toBase58)'')
           | Some k \<Rightarrow> collect rest (acc(toBase58 k \<mapsto> to_hex sg))))"

definition collectSignatures :: "transaction \<Rightarrow> jsval + (string \<rightharpoonup> string)" where
  "collectSignatures t = collect (signatures t) Map.empty"

text \<open>Example data for the codec.\<close>

definition key_A :: PublicKey where
  "key_A = [0, 0, 0, 0, 0, 0, 0, 0, 0, 0, 0, 0, 0, 0, 0, 0, 0, 0, 0, 0, 0, 0, 0, 0, 0, 0, 0, 0, 0, 0, 0, 1]"

definition key_B :: PublicKey where
  "key_B = [0, 0, 0, 0, 0, 0, 0, 0, 0, 0, 0, 0, 0, 0, 0, 0, 0, 0, 0, 0, 0, 0, 0, 0, 0, 0, 0, 0, 0, 0, 0, 2]"

definition msg_ex :: message where
  "msg_ex =
     \<lparr>header = \<lparr>numRequiredSignatures = 1, numReadonlySignedAccounts = 0,
                 numReadonlyUnsignedAccounts = 1\<rparr>,
      accountKeys = [key_A, key_B],
      m_recentBlockhash = ''11111111111111111111111111111114'',
      m_instructions = [\<lparr>programIdIndex = 1, ci_accounts = [0, 1], ci_data = ''2''\<rparr>],
      isAccountWritable = (\<lambda>i. i < 1)\<rparr>"

text \<open>
  The wire form of \<open>msg_ex\<close> in hexadecimal: the three header bytes \<open>01 00 01\<close>, the key
  count \<open>02\<close> and the two keys, the 32 bytes of the block hash, the instruction count
  \<open>01\<close>, and the instruction (program index \<open>01\<close>, two accounts \<open>00 01\<close>, one data byte
  \<open>01\<close>).
\<close>

definition raw_ex :: string where
  "raw_ex =
     ''010001'' @ ''02''
     @ ''00000000000000000000000000000000000000000000000000000000000000'' @ ''01''
     @ ''00000000000000000000000000000000000000000000000000000000000000'' @ ''02''
     @ ''00000000000000000000000000000000000000000000000000000000000000'' @ ''03''
     @ ''01'' @ ''01'' @ ''02'' @ ''0001'' @ ''01'' @ ''01''"

text \<open>
  The decoder of the library on that one wire message; the example uses no other.
\<close>

definition Message_from_ex :: "string \<Rightarrow> jsval + message" where
  "Message_from_ex raw =
     (if raw = raw_ex then Inr msg_ex
      else Inl (JError ''Error'' ''no example decoding for this wire message''))"

definition tx_ex :: transaction where
  "tx_ex =
     \<lparr>signatures =
        [\<lparr>signature = Some [0x96, 0xff, 0x73], publicKey = Some key_A\<rparr>,
         \<lparr>signature = None, publicKey = Some key_B\<rparr>],
      feePayer = Some key_A,
      instructions =
        [\<lparr>keys = [\<lparr>pubkey = Some key_A, isSigner = True, isWritable = True\<rparr>,
                  \<lparr>pubkey = Some key_B, isSigner = False, isWritable = False\<rparr>],
          programId = Some key_B,
          data = [1]\<rparr>],
      recentBlockhash = Some ''11111111111111111111111111111114''\<rparr>"

section \<open>The provider and its environment\<close>

text \<open>
  The provider runs on the single-threaded event loop of the page. Its state is the
  fields of the \<open>SolanaProvider\<close> object together with what it touches in the page:
  the frames under \<open>document.body\<close>, the \<open>message\<close> listeners on \<open>window\<close>, the
  promises it created, the running interval timers, and a log of what it sent out.
\<close>

datatype http_method = GET | POST

text \<open>
  The addresses the provider builds with template strings, kept structured:
  \<^item> \<open>Rpc rpc\<close>: \<open>this.rpc\<close>
  \<^item> \<open>AccountsUrl server code\<close>: \<open>${server}/api/solana/accounts?code=${code}\<close>
  \<^item> \<open>ConvertUrl server code\<close>: \<open>${server}/api/solana/convertToWalletTx?code=${code}\<close>
  \<^item> \<open>AuthzUrl server code\<close>: \<open>${server}/api/solana/authz?code=${code}\<close>
  \<^item> \<open>AuthzStatusUrl server id\<close>: \<open>${server}/api/solana/authz?authorizationId=${id}\<close>
  \<^item> \<open>AuthnFrameUrl server origin\<close>: \<open>${server}/authn?l6n=${encodeURIComponent(origin)}&chain=solana\<close>
  \<^item> \<open>AuthzFrameUrl server id\<close>: \<open>${server}/authz/solana/${id}\<close>
\<close>

datatype target =
    Rpc string
  | AccountsUrl string jsval
  | ConvertUrl string jsval
  | AuthzUrl string jsval
  | AuthzStatusUrl string jsval
  | AuthnFrameUrl string string
  | AuthzFrameUrl string jsval

text \<open>
  What leaves the provider, in order: a \<open>fetch\<close> (with the object given to
  \<open>JSON.stringify\<close> as its body, \<open>JUndefined\<close> when there is none), \<open>console.error\<close>,
  an exception nobody catches (thrown out of an event handler or a promise callback),
  \<open>setInterval\<close> with its handle and period, and \<open>clearInterval\<close>.
\<close>

datatype effect =
    Fetch http_method target jsval
  | ConsoleError jsval
  | Uncaught jsval
  | SetInterval nat nat
  | ClearInterval nat

text \<open>An \<open>iframe\<close> element made by \<open>createFrame\<close>; \<open>frame_id\<close> is its identity.\<close>

record frame =
  frame_id :: nat
  src :: target

text \<open>
  The closure registered by \<open>connect\<close>: it holds the login frame and the \<open>resolve\<close> and
  \<open>reject\<close> of the promise \<open>connect\<close> returned.
\<close>

record listener =
  listener_id :: nat
  loginFrame :: frame
  l_promise :: nat

text \<open>
  The state:
  \<^item> \<open>connected\<close> (inherited from \<open>BloctoProvider\<close>), \<open>code\<close>, \<open>accounts\<close>, \<open>server\<close>, \<open>rpc\<close>:
    the fields of the provider that its methods read and write;
  \<^item> \<open>has_window\<close>: \<open>typeof window !== 'undefined'\<close>; \<open>origin\<close>: \<open>window.location.origin\<close>;
  \<^item> \<open>body_frames\<close>: the frames under \<open>document.body\<close>, in order; \<open>created\<close>: how many frames
    have been created, the identity of the next one;
  \<^item> \<open>listeners\<close>: the \<open>message\<close> listeners on \<open>window\<close>; \<open>registered\<close>: how many have been
    registered;
  \<^item> \<open>promises\<close>: the state of every promise created, by index;
  \<^item> \<open>intervals\<close>: the running interval timers, handle and period; \<open>timers\<close>: how many have
    been started, the next handle;
  \<^item> \<open>log\<close>: what has left the provider so far.
\<close>

record sys =
  connected :: bool
  code :: jsval
  accounts :: jsval
  server :: string
  rpc :: string
  has_window :: bool
  origin :: string
  body_frames :: "frame list"
  created :: nat
  listeners :: "listener list"
  registered :: nat
  promises :: "outcome list"
  intervals :: "(nat \<times> nat) list"
  timers :: nat
  log :: "effect list"

text \<open>\<open>SolanaRequest\<close>: \<open>{method: string, params?: Object}\<close>.\<close>

record solana_request =
  method_name :: string
  params :: jsval

record message_event =
  ev_origin :: string
  ev_data :: jsval

text \<open>
  What happens while an authorization is awaited: the interval timer expires, or the
  reply to a status request arrives (\<open>Inl\<close>: the request failed with that reason,
  \<open>Inr\<close>: the parsed JSON).
\<close>

datatype poll_event = Tick | Reply "jsval + jsval"

text \<open>
  The world the provider talks to: \<open>http\<close> answers a \<open>fetch(...).then(r => r.json())\<close>
  (\<open>Inl\<close>: rejected with that reason, \<open>Inr\<close>: the parsed JSON), \<open>messages\<close> are the
  \<open>message\<close> events the window receives while a handshake is awaited, and \<open>polls\<close>
  is what happens while an authorization is awaited.
\<close>

record env =
  http :: "http_method \<Rightarrow> target \<Rightarrow> jsval \<Rightarrow> jsval + jsval"
  messages :: "message_event list"
  polls :: "poll_event list"

subsection \<open>Promises, frames, listeners, timers\<close>

definition emit :: "effect \<Rightarrow> sys \<Rightarrow> sys" where
  "emit e s = s\<lparr>log := log s @ [e]\<rparr>"

text \<open>\<open>new Promise(...)\<close>: the promise is the next index of \<open>promises\<close>.\<close>

definition new_promise :: "sys \<Rightarrow> nat \<times> sys" where
  "new_promise s = (length (promises s), s\<lparr>promises := promises s @ [Pending]\<rparr>)"

text \<open>\<open>resolve(v)\<close> and \<open>reject(r)\<close>: only a pending promise changes.\<close>

definition settle :: "nat \<Rightarrow> outcome \<Rightarrow> sys \<Rightarrow> sys" where
  "settle p out s =
     (if p < length (promises s) \<and> promises s ! p = Pending
      then s\<lparr>promises := (promises s)[p := out]\<rparr> else s)"

definition promise_state :: "sys \<Rightarrow> nat \<Rightarrow> outcome" where
  "promise_state s p = (if p < length (promises s) then promises s ! p else Pending)"

text \<open>\<open>createFrame(url)\<close> of \<open>lib/frame.js\<close>\<close>

definition createFrame :: "target \<Rightarrow> sys \<Rightarrow> frame \<times> sys" where
  "createFrame url s = (\<lparr>frame_id = created s, src = url\<rparr>, s\<lparr>created := Suc (created s)\<rparr>)"

text \<open>\<open>attachFrame(frame)\<close>: \<open>document.body.appendChild(frame)\<close>\<close>

definition attachFrame :: "frame \<Rightarrow> sys \<Rightarrow> sys" where
  "attachFrame f s = s\<lparr>body_frames := filter (\<lambda>g. g \<noteq> f) (body_frames s) @ [f]\<rparr>"

text \<open>
  \<open>detatchFrame(frame)\<close>: \<open>frame.parentNode.removeChild(frame)\<close>. A frame that is not in
  the document has \<open>parentNode === null\<close>, and the call throws.
\<close>

definition detatchFrame :: "frame \<Rightarrow> sys \<Rightarrow> jsval + sys" where
  "detatchFrame f s =
     (if f \<in> set (body_frames s)
      then Inr (s\<lparr>body_frames := filter (\<lambda>g. g \<noteq> f) (body_frames s)\<rparr>)
      else Inl (JError ''TypeError'' ''Cannot read properties of null (reading removeChild)''))"

text \<open>
  Modelled from the spec: \<open>addSelfRemovableHandler\<close> (\<open>lib/addSelfRemovableHandler\<close> is not
  among the sources). It is the one-shot, self-removing subscription utility: it
  registers the handler on \<open>window\<close> for the event, and hands the handler, at each event,
  a callback that removes it.
\<close>

definition addSelfRemovableHandler :: "frame \<Rightarrow> nat \<Rightarrow> sys \<Rightarrow> sys" where
  "addSelfRemovableHandler f p s =
     s\<lparr>listeners := listeners s @ [\<lparr>listener_id = registered s, loginFrame = f, l_promise = p\<rparr>],
       registered := Suc (registered s)\<rparr>"

definition removeListener :: "listener \<Rightarrow> sys \<Rightarrow> sys" where
  "removeListener l s = s\<lparr>listeners := filter (\<lambda>x. x \<noteq> l) (listeners s)\<rparr>"

definition setInterval :: "nat \<Rightarrow> sys \<Rightarrow> nat \<times> sys" where
  "setInterval period s =
     (timers s,
      emit (SetInterval (timers s) period)
        (s\<lparr>intervals := intervals s @ [(timers s, period)], timers := Suc (timers s)\<rparr>))"

definition clearInterval :: "nat \<Rightarrow> sys \<Rightarrow> sys" where
  "clearInterval h s =
     emit (ClearInterval h) (s\<lparr>intervals := filter (\<lambda>(i, period). i \<noteq> h) (intervals s)\<rparr>)"

definition timer_active :: "nat \<Rightarrow> sys \<Rightarrow> bool" where
  "timer_active h s = (h \<in> fst ` set (intervals s))"

text \<open>
  A block of statements that may throw part-way: \<open>Inl (err, s)\<close> is \<open>err\<close> thrown in
  state \<open>s\<close>, \<open>Inr s\<close> is normal completion.
\<close>

definition then_do :: "(jsval \<times> sys) + sys \<Rightarrow> (sys \<Rightarrow> (jsval \<times> sys) + sys) \<Rightarrow> (jsval \<times> sys) + sys" where
  "then_do x f = (case x of Inl es \<Rightarrow> Inl es | Inr s \<Rightarrow> f s)"

text \<open>An exception that leaves a handler or a promise callback is reported, nothing more.\<close>

definition run_callback :: "(jsval \<times> sys) + sys \<Rightarrow> sys" where
  "run_callback x = (case x of Inl (err, s) \<Rightarrow> emit (Uncaught err) s | Inr s \<Rightarrow> s)"

subsection \<open>\<open>connect\<close>: the handshake\<close>

text \<open>The two \<open>if (e.data.type === ...)\<close> blocks of the handler.\<close>

definition challenge_response :: "listener \<Rightarrow> message_event \<Rightarrow> sys \<Rightarrow> (jsval \<times> sys) + sys" where
  "challenge_response l e s =
     (let s1 = removeListener l s in
      case detatchFrame (loginFrame l) s1 of
        Inl err \<Rightarrow> Inl (err, s1)
      | Inr s2 \<Rightarrow>
          (case get_prop (ev_data e) ''code'' of
             Inl err \<Rightarrow> Inl (err, s2)
           | Inr c \<Rightarrow>
               (case get_prop (ev_data e) ''addr'' of
                  Inl err \<Rightarrow> Inl (err, s2\<lparr>code := c, connected := True\<rparr>)
                | Inr addr \<Rightarrow>
                    Inr (settle (l_promise l) (Resolved (JArr [addr]))
                           (s2\<lparr>code := c, connected := True, accounts := JArr [addr]\<rparr>)))))"

definition challenge_cancel :: "listener \<Rightarrow> sys \<Rightarrow> (jsval \<times> sys) + sys" where
  "challenge_cancel l s =
     (let s1 = removeListener l s in
      case detatchFrame (loginFrame l) s1 of
        Inl err \<Rightarrow> Inl (err, s1)
      | Inr s2 \<Rightarrow> Inr (settle (l_promise l) (Rejected JUndefined) s2))"

text \<open>The handler given to \<open>addSelfRemovableHandler\<close>, run for one \<open>message\<close> event.\<close>

definition handler :: "listener \<Rightarrow> message_event \<Rightarrow> sys \<Rightarrow> sys" where
  "handler l e s =
     run_callback
       (if ev_origin e = server s
        then then_do
               (case get_prop (ev_data e) ''type'' of
                  Inl err \<Rightarrow> Inl (err, s)
                | Inr ty \<Rightarrow>
                    if ty = JStr ''FCL::CHALLENGE::RESPONSE'' then challenge_response l e s
                    else Inr s)
               (\<lambda>s'. case get_prop (ev_data e) ''type'' of
                  Inl err \<Rightarrow> Inl (err, s')
                | Inr ty \<Rightarrow>
                    if ty = JStr ''FCL::CHALLENGE::CANCEL'' then challenge_cancel l s'
                    else Inr s')
        else Inr s)"

text \<open>
  The window receives a \<open>message\<close> event: every listener registered when the event is
  dispatched, and not removed since, is run.
\<close>

definition dispatch_message :: "message_event \<Rightarrow> sys \<Rightarrow> sys" where
  "dispatch_message e s =
     fold (\<lambda>l s'. if l \<in> set (listeners s') then handler l e s' else s') (listeners s) s"

text \<open>
  \<open>connect()\<close>: the executor of the promise runs at once. Without \<open>window\<close> it calls
  \<open>reject\<close> and goes on to \<open>window.location\<close>, which throws; the promise constructor
  turns the exception into a second \<open>reject\<close>, which a settled promise ignores.
\<close>

definition connect :: "sys \<Rightarrow> nat \<times> sys" where
  "connect s0 =
     (let (p, s) = new_promise s0 in
      if \<not> has_window s
      then (p, settle p (Rejected (JError ''ReferenceError'' ''window is not defined''))
                 (settle p (Rejected (JStr ''Currently only supported in browser'')) s))
      else
        (let (frame, s1) = createFrame (AuthnFrameUrl (server s) (origin s)) s;
             s2 = attachFrame frame s1
         in (p, addSelfRemovableHandler frame p s2)))"

text \<open>
  \<open>await\<close> on the promise of \<open>connect\<close>: message events are delivered one by one until
  the promise is settled.
\<close>

fun await_messages :: "nat \<Rightarrow> message_event list \<Rightarrow> sys \<Rightarrow> sys" where
  "await_messages p [] s = s"
| "await_messages p (e # es) s =
     (if promise_state s p = Pending then await_messages p es (dispatch_message e s) else s)"

text \<open>
  The guard at the start of \<open>request\<close>, \<open>if (!this.connected) await this.connect()\<close>, up
  to its \<open>await\<close>: the promise awaited, if any.
\<close>

definition ensureConnected :: "sys \<Rightarrow> nat option \<times> sys" where
  "ensureConnected s =
     (if \<not> connected s then (let (p, s') = connect s in (Some p, s')) else (None, s))"

text \<open>
  \<open>n\<close> callers enter the guard one after the other before any message event is
  delivered; the promises they await, in order.
\<close>

fun ensureConnected_times :: "nat \<Rightarrow> sys \<Rightarrow> nat option list \<times> sys" where
  "ensureConnected_times 0 s = ([], s)"
| "ensureConnected_times (Suc n) s =
     (let (p, s1) = ensureConnected s; (ps, s2) = ensureConnected_times n s1 in (p # ps, s2))"

subsection \<open>Objects sent to the backend\<close>

text \<open>Decimal digits of an index, for the property names of arrays and strings.\<close>

fun dec :: "nat \<Rightarrow> string" where
  "dec n = (if n < 10 then [''0123456789'' ! n] else dec (n div 10) @ [''0123456789'' ! (n mod 10)])"

declare dec.simps [simp del]

text \<open>The own enumerable properties an object spread \<open>...v\<close> copies.\<close>

fun own_props :: "jsval \<Rightarrow> (string \<times> jsval) list" where
  "own_props (JObj kvs) = kvs"
| "own_props (JArr xs) = zip (map dec [0 ..< length xs]) xs"
| "own_props (JStr cs) = zip (map dec [0 ..< length cs]) (map (\<lambda>c. JStr [c]) cs)"
| "own_props v = []"

text \<open>
  A property name that is an array index: decimal digits with no leading zero, below
  \<open>2^32 - 1\<close>. An object lists these names first, in numeric order, and the other names
  after them in the order they were added.
\<close>

definition array_index :: "string \<Rightarrow> nat option" where
  "array_index k =
     (if k \<noteq> [] \<and> list_all (\<lambda>c. c \<in> set ''0123456789'') k
         \<and> (k = ''0'' \<or> hd k \<noteq> CHR ''0'')
         \<and> fold (\<lambda>c n. n * 10 + the (index_of c ''0123456789'')) k 0 < 2 ^ 32 - 1
      then Some (fold (\<lambda>c n. n * 10 + the (index_of c ''0123456789'')) k 0)
      else None)"

text \<open>The new property \<open>k\<close> goes before \<open>k'\<close>: an index before a name, a smaller index first.\<close>

definition goes_before :: "string \<Rightarrow> string \<Rightarrow> bool" where
  "goes_before k k' =
     (case array_index k of
        None \<Rightarrow> False
      | Some i \<Rightarrow> (case array_index k' of None \<Rightarrow> True | Some j \<Rightarrow> i < j))"

fun insert_prop :: "string \<Rightarrow> jsval \<Rightarrow> (string \<times> jsval) list \<Rightarrow> (string \<times> jsval) list" where
  "insert_prop k v [] = [(k, v)]"
| "insert_prop k v ((k', v') # kvs) =
     (if goes_before k k' then (k, v) # (k', v') # kvs else (k', v') # insert_prop k v kvs)"

text \<open>\<open>obj[k] = v\<close>: an existing property keeps its place, a new one is inserted.\<close>

definition obj_set :: "string \<Rightarrow> jsval \<Rightarrow> (string \<times> jsval) list \<Rightarrow> (string \<times> jsval) list" where
  "obj_set k v kvs =
     (if k \<in> fst ` set kvs then map (\<lambda>(k', v'). if k' = k then (k', v) else (k', v')) kvs
      else insert_prop k v kvs)"

text \<open>\<open>{...base, ...v}\<close>: a later property replaces the value of an earlier one.\<close>

definition spread :: "(string \<times> jsval) list \<Rightarrow> jsval \<Rightarrow> jsval" where
  "spread base v = JObj (fold (\<lambda>(k, x). obj_set k x) (own_props v) base)"

text \<open>\<open>v.length\<close>\<close>

fun js_length :: "jsval \<Rightarrow> jsval + jsval" where
  "js_length (JArr xs) = Inr (JNum (int (length xs)))"
| "js_length (JStr cs) = Inr (JNum (int (length cs)))"
| "js_length v = get_prop v ''length''"

subsection \<open>The calls to the backend\<close>

text \<open>
  Each asynchronous method returns the outcome of its promise and the state it leaves.
  A \<open>fetch\<close> is logged when it is issued, before its reply is known.
\<close>

definition fetchAccounts :: "env \<Rightarrow> sys \<Rightarrow> outcome \<times> sys" where
  "fetchAccounts w s =
     (let url = AccountsUrl (server s) (code s);
          s1 = emit (Fetch GET url JUndefined) s
      in case http w GET url JUndefined of
           Inl err \<Rightarrow> (Rejected err, s1)
         | Inr json \<Rightarrow>
             (case get_prop json ''accounts'' of
                Inl err \<Rightarrow> (Rejected err, s1)
              | Inr accs \<Rightarrow> (Resolved accs, s1\<lparr>accounts := accs\<rparr>)))"

text \<open>
  \<open>handleReadRequests\<close>: the body is \<open>{ id: 1, jsonrpc: '2.0', ...payload }\<close>, with the
  two properties of a \<open>SolanaRequest\<close>.
\<close>

definition handleReadRequests :: "env \<Rightarrow> solana_request \<Rightarrow> sys \<Rightarrow> outcome \<times> sys" where
  "handleReadRequests w payload s =
     (let body = spread [(''id'', JNum 1), (''jsonrpc'', JStr ''2.0'')]
                   (JObj [(''method'', JStr (method_name payload)), (''params'', params payload)]);
          s1 = emit (Fetch POST (Rpc (rpc s)) body) s
      in case http w POST (Rpc (rpc s)) body of
           Inl err \<Rightarrow> (Rejected err, s1)
         | Inr json \<Rightarrow> (Resolved json, s1))"

definition handleConvertTransaction :: "env \<Rightarrow> solana_request \<Rightarrow> sys \<Rightarrow> outcome \<times> sys" where
  "handleConvertTransaction w payload s =
     (let url = ConvertUrl (server s) (code s);
          body = spread [(''sessionId'', code s)] (params payload);
          s1 = emit (Fetch POST url body) s
      in case http w POST url body of
           Inl err \<Rightarrow> (Rejected err, s1)
         | Inr json \<Rightarrow> (Resolved json, s1))"

subsection \<open>\<open>handleSignAndSendTransaction\<close>: the authorization\<close>

text \<open>What the polling closure holds: the frame, the timer handle, its promise, the id.\<close>

record authz_flow =
  authzFrame :: frame
  pollingId :: nat
  a_promise :: nat
  authorizationId :: jsval

text \<open>The two \<open>if (status === ...)\<close> blocks of the reply callback.\<close>

definition approved :: "authz_flow \<Rightarrow> jsval \<Rightarrow> sys \<Rightarrow> (jsval \<times> sys) + sys" where
  "approved fl transactionHash s =
     (case detatchFrame (authzFrame fl) s of
        Inl err \<Rightarrow> Inl (err, s)
      | Inr s1 \<Rightarrow>
          Inr (settle (a_promise fl) (Resolved transactionHash) (clearInterval (pollingId fl) s1)))"

definition declined :: "authz_flow \<Rightarrow> sys \<Rightarrow> (jsval \<times> sys) + sys" where
  "declined fl s =
     (case detatchFrame (authzFrame fl) s of
        Inl err \<Rightarrow> Inl (err, s)
      | Inr s1 \<Rightarrow>
          Inr (settle (a_promise fl) (Rejected (JStr ''Transaction Canceled''))
                 (clearInterval (pollingId fl) s1)))"

text \<open>
  The reply to one status request reaches
  \<open>.then(response => response.json()).then(({ status, transactionHash }) => ...)\<close>.
  A failed request and a reply that cannot be destructured leave the chain rejected with
  nobody to catch it.
\<close>

definition on_poll_reply :: "authz_flow \<Rightarrow> jsval + jsval \<Rightarrow> sys \<Rightarrow> sys" where
  "on_poll_reply fl r s =
     run_callback
       (case r of
          Inl err \<Rightarrow> Inl (err, s)
        | Inr json \<Rightarrow>
            (case get_prop json ''status'' of
               Inl err \<Rightarrow> Inl (err, s)
             | Inr status \<Rightarrow>
                 (case get_prop json ''transactionHash'' of
                    Inl err \<Rightarrow> Inl (err, s)
                  | Inr transactionHash \<Rightarrow>
                      then_do
                        (if status = JStr ''APPROVED'' then approved fl transactionHash s
                         else Inr s)
                        (\<lambda>s'. if status = JStr ''DECLINED'' then declined fl s' else Inr s'))))"

text \<open>\<open>pollAuthzStatus\<close>, run by the timer: it issues the status request.\<close>

definition pollAuthzStatus :: "authz_flow \<Rightarrow> sys \<Rightarrow> sys" where
  "pollAuthzStatus fl s =
     emit (Fetch GET (AuthzStatusUrl (server s) (authorizationId fl)) JUndefined) s"

text \<open>
  One event while the authorization is awaited; \<open>n\<close> counts the status requests sent
  and not yet answered. A cleared timer does not fire, and a reply answers a request.
\<close>

fun poll_step :: "authz_flow \<Rightarrow> poll_event \<Rightarrow> nat \<times> sys \<Rightarrow> nat \<times> sys" where
  "poll_step fl Tick (n, s) =
     (if timer_active (pollingId fl) s then (Suc n, pollAuthzStatus fl s) else (n, s))"
| "poll_step fl (Reply r) (n, s) =
     (if n = 0 then (n, s) else (n - 1, on_poll_reply fl r s))"


text \<open>
  \<open>await\<close> on the promise of the authorization: the events happen one by one until the
  promise is settled.
\<close>

fun await_polls :: "authz_flow \<Rightarrow> poll_event list \<Rightarrow> nat \<times> sys \<Rightarrow> nat \<times> sys" where
  "await_polls fl [] ns = ns"
| "await_polls fl (ev # evs) ns =
     (if promise_state (snd ns) (a_promise fl) = Pending
      then await_polls fl evs (poll_step fl ev ns) else ns)"

text \<open>
  The second half of \<open>handleSignAndSendTransaction\<close>: the frame is created and attached,
  the promise is made, and its executor starts the timer.
\<close>

definition start_polling :: "jsval \<Rightarrow> sys \<Rightarrow> authz_flow \<times> sys" where
  "start_polling aid s =
     (let (frame, s2) = createFrame (AuthzFrameUrl (server s) aid) s;
          s3 = attachFrame frame s2;
          (p, s4) = new_promise s3;
          (h, s5) = setInterval 1000 s4
      in (\<lparr>authzFrame = frame, pollingId = h, a_promise = p, authorizationId = aid\<rparr>, s5))"

definition handleSignAndSendTransaction :: "env \<Rightarrow> solana_request \<Rightarrow> sys \<Rightarrow> outcome \<times> sys" where
  "handleSignAndSendTransaction w payload s =
     (let url = AuthzUrl (server s) (code s);
          body = spread [(''sessionId'', code s)] (params payload);
          s1 = emit (Fetch POST url body) s
      in case http w POST url body of
           Inl err \<Rightarrow> (Rejected err, s1)
         | Inr json \<Rightarrow>
             (case get_prop json ''authorizationId'' of
                Inl err \<Rightarrow> (Rejected err, s1)
              | Inr aid \<Rightarrow>
                  if \<not> has_window s1
                  then (Rejected (JError ''Error'' ''Currently only supported in browser''), s1)
                  else
                    (let (fl, s5) = start_polling aid s1;
                         (n, s6) = await_polls fl (polls w) (0, s5)
                     in (promise_state s6 (a_promise fl), s6))))"

text \<open>The authorization has let go of its frame and its timer.\<close>

definition released :: "authz_flow \<Rightarrow> sys \<Rightarrow> bool" where
  "released fl s = (authzFrame fl \<notin> set (body_frames s) \<and> \<not> timer_active (pollingId fl) s)"

text \<open>The authorization is under way: promise pending, frame attached, timer running.\<close>

definition live :: "authz_flow \<Rightarrow> sys \<Rightarrow> bool" where
  "live fl s =
     (a_promise fl < length (promises s) \<and> promise_state s (a_promise fl) = Pending
      \<and> authzFrame fl \<in> set (body_frames s) \<and> timer_active (pollingId fl) s)"



text \<open>The frame, timer and promise that \<open>start_polling\<close> makes in state \<open>s\<close> for the id.\<close>

definition flow_of :: "sys \<Rightarrow> jsval \<Rightarrow> authz_flow" where
  "flow_of s aid =
     \<lparr>authzFrame = \<lparr>frame_id = created s, src = AuthzFrameUrl (server s) aid\<rparr>,
      pollingId = timers s, a_promise = length (promises s), authorizationId = aid\<rparr>"

text \<open>The requests in a log.\<close>

fun is_fetch :: "effect \<Rightarrow> bool" where
  "is_fetch (Fetch m url body) = True"
| "is_fetch e = False"

definition fetches :: "effect list \<Rightarrow> effect list" where
  "fetches es = filter is_fetch es"

subsection \<open>\<open>request\<close>\<close>

definition unsupported :: "string \<Rightarrow> jsval" where
  "unsupported m =
     JError ''Error''
       (''Blocto is program wallet, which doesn't support '' @ m @
        ''. Use signAndSendTransaction instead.'')"

text \<open>
  The \<open>switch\<close> with the two \<open>return\<close>s after it. \<open>response\<close> is set in the default
  branch only and \<open>result\<close> in the others (both start as \<open>null\<close>): a truthy \<open>response\<close>
  gives \<open>response.result\<close>, anything else gives \<open>result\<close>.
\<close>

definition switch_method :: "env \<Rightarrow> solana_request \<Rightarrow> sys \<Rightarrow> outcome \<times> sys" where
  "switch_method w payload s =
     (let m = method_name payload in
      if m = ''connect'' then fetchAccounts w s
      else if m = ''getAccounts'' then
        (case js_length (accounts s) of
           Inl err \<Rightarrow> (Rejected err, s)
         | Inr n \<Rightarrow> if truthy n then (Resolved (accounts s), s) else fetchAccounts w s)
      else if m = ''convertToProgramWalletTransaction'' then handleConvertTransaction w payload s
      else if m = ''signAndSendTransaction'' then handleSignAndSendTransaction w payload s
      else if m = ''signTransaction'' \<or> m = ''signAllTransactions'' then
        (Rejected (unsupported m), s)
      else
        (case handleReadRequests w payload s of
           (Resolved response, s1) \<Rightarrow>
             if truthy response
             then (case get_prop response ''result'' of
                     Inl err \<Rightarrow> (Rejected err, s1)
                   | Inr r \<Rightarrow> (Resolved r, s1))
             else (Resolved JNull, s1)
         | other \<Rightarrow> other))"

text \<open>\<open>try { ... } catch (error) { console.error(error); throw error; }\<close>\<close>

definition try_switch :: "env \<Rightarrow> solana_request \<Rightarrow> sys \<Rightarrow> outcome \<times> sys" where
  "try_switch w payload s =
     (case switch_method w payload s of
        (Rejected error, s1) \<Rightarrow> (Rejected error, emit (ConsoleError error) s1)
      | other \<Rightarrow> other)"

text \<open>
  \<open>request(payload)\<close>: the guard, outside the \<open>try\<close>, then the dispatch. A rejected
  handshake rejects the request; a handshake that no message ends leaves it pending.
\<close>

definition request :: "env \<Rightarrow> solana_request \<Rightarrow> sys \<Rightarrow> outcome \<times> sys" where
  "request w payload s =
     (case ensureConnected s of
        (None, s1) \<Rightarrow> try_switch w payload s1
      | (Some p, s1) \<Rightarrow>
          (let s2 = await_messages p (messages w) s1 in
           case promise_state s2 p of
             Pending \<Rightarrow> (Pending, s2)
           | Rejected r \<Rightarrow> (Rejected r, s2)
           | Resolved v \<Rightarrow> try_switch w payload s2))"

subsection \<open>Example states and environments\<close>

definition sys_ex :: sys where
  "sys_ex =
     \<lparr>connected = False, code = JNull, accounts = JArr [],
      server = ''https://wallet.example'', rpc = ''https://api.mainnet-beta.solana.com'',
      has_window = True, origin = ''https://dapp.example'',
      body_frames = [], created = 0, listeners = [], registered = 0, promises = [],
      intervals = [], timers = 0, log = []\<rparr>"

definition sys_connected :: sys where
  "sys_connected = sys_ex\<lparr>connected := True, code := JStr ''c0'', accounts := JArr [JStr ''addr0'']\<rparr>"

definition cancel_event :: message_event where
  "cancel_event =
     \<lparr>ev_origin = ''https://wallet.example'',
      ev_data = JObj [(''type'', JStr ''FCL::CHALLENGE::CANCEL'')]\<rparr>"

definition response_event :: message_event where
  "response_event =
     \<lparr>ev_origin = ''https://wallet.example'',
      ev_data = JObj [(''type'', JStr ''FCL::CHALLENGE::RESPONSE''), (''code'', JStr ''c0''),
                      (''addr'', JStr ''addr0'')]\<rparr>"

definition other_event :: message_event where
  "other_event =
     \<lparr>ev_origin = ''https://elsewhere.example'',
      ev_data = JObj [(''type'', JStr ''FCL::CHALLENGE::CANCEL'')]\<rparr>"

definition pending_reply :: "jsval + jsval" where
  "pending_reply = Inr (JObj [(''status'', JStr ''PENDING'')])"

definition approved_reply :: "jsval \<Rightarrow> jsval + jsval" where
  "approved_reply h = Inr (JObj [(''status'', JStr ''APPROVED''), (''transactionHash'', h)])"


definition rpc_error_ex :: jsval where
  "rpc_error_ex =
     JObj [(''jsonrpc'', JStr ''2.0''), (''id'', JNum 1),
           (''error'', JObj [(''code'', JNum (- 32601)), (''message'', JStr ''Method not found'')])]"

definition env_ex :: env where
  "env_ex =
     \<lparr>http = (\<lambda>m url body.
         case url of
           AuthzUrl sv c \<Rightarrow> Inr (JObj [(''authorizationId'', JStr ''a1'')])
         | Rpc r \<Rightarrow> Inr rpc_error_ex
         | other \<Rightarrow> Inl (JError ''TypeError'' ''Failed to fetch'')),
      messages = [],
      polls = []\<rparr>"

text \<open>The state after \<open>connect\<close> in \<open>sys_ex\<close>, and the listener it registered.\<close>

definition listener_ex :: listener where
  "listener_ex =
     \<lparr>listener_id = 0,
      loginFrame = \<lparr>frame_id = 0,
                    src = AuthnFrameUrl ''https://wallet.example'' ''https://dapp.example''\<rparr>,
      l_promise = 0\<rparr>"

definition sys_waiting :: sys where
  "sys_waiting =
     sys_ex\<lparr>promises := [Pending], created := 1,
            body_frames := [loginFrame listener_ex],
            listeners := [listener_ex], registered := 1\<rparr>"

definition payload_ex :: solana_request where
  "payload_ex =
     \<lparr>method_name = ''signAndSendTransaction'', params = JObj [(''message'', JStr ''0a'')]\<rparr>"

definition env_approved :: env where
  "env_approved =
     env_ex\<lparr>polls := [Tick, Reply pending_reply, Tick, Reply pending_reply, Tick,
                      Reply (approved_reply (JStr ''H''))]\<rparr>"

text \<open>
  The second status request is answered only after the third has been sent, and a
  fourth is sent before the approval arrives.
\<close>

definition env_slow :: env where
  "env_slow =
     env_ex\<lparr>polls := [Tick, Reply pending_reply, Tick, Tick, Reply pending_reply, Tick,
                      Reply (approved_reply (JStr ''H''))]\<rparr>"


text \<open>A message from the service origin that carries no data.\<close>

definition null_event :: message_event where
  "null_event = \<lparr>ev_origin = ''https://wallet.example'', ev_data = JNull\<rparr>"

section \<open>Lemmas on the codec\<close>

lemma bindE_simps [simp]:
  "bindE (Inl e) f = Inl e"
  "bindE (Inr v) f = f v"
  by (simp_all add: bindE_def)

lemma bindE_eq_Inr: "bindE x f = Inr y \<longleftrightarrow> (\<exists>v. x = Inr v \<and> f v = Inr y)"
  by (cases x) simp_all

lemma push_signatures_list:
  "push_signatures m i sigs t = Inr t' \<Longrightarrow>
     t' = t\<lparr>signatures := signatures t @ map (\<lambda>(j, s).
        \<lparr>signature = (if s = toBase58 PublicKey_default then None
                      else (case bs58_decode s of Inr b \<Rightarrow> Some b | Inl e \<Rightarrow> None)),
         publicKey = at_index (accountKeys m) j\<rparr>) (zip [i ..< i + length sigs] sigs)\<rparr>
     \<and> (\<forall>s \<in> set sigs. s \<noteq> toBase58 PublicKey_default \<longrightarrow> (\<exists>b. bs58_decode s = Inr b))"
proof (induction sigs arbitrary: i t)
  case Nil
  then show ?case by simp
next
  case (Cons s sigs)
  have upt: "[i ..< Suc (i + length sigs)] = i # [Suc i ..< Suc (i + length sigs)]"
    by (simp add: upt_conv_Cons del: upt_Suc)
  show ?case
  proof (cases "s = toBase58 PublicKey_default")
    case True
    with Cons.prems have "push_signatures m (Suc i) sigs
        (t\<lparr>signatures := signatures t @ [\<lparr>signature = (if s = toBase58 PublicKey_default then None else (case bs58_decode s of Inr b \<Rightarrow> Some b | Inl e \<Rightarrow> None)), publicKey = at_index (accountKeys m) i\<rparr>]\<rparr>) = Inr t'"
      by simp
    from Cons.IH[OF this] True show ?thesis
      by (simp add: upt del: upt_Suc)
  next
    case False
    with Cons.prems obtain b where b: "bs58_decode s = Inr b"
      by (auto split: sum.splits)
    with False Cons.prems have "push_signatures m (Suc i) sigs
        (t\<lparr>signatures := signatures t @ [\<lparr>signature = (if s = toBase58 PublicKey_default then None else (case bs58_decode s of Inr b \<Rightarrow> Some b | Inl e \<Rightarrow> None)), publicKey = at_index (accountKeys m) i\<rparr>]\<rparr>) = Inr t'"
      by simp
    from Cons.IH[OF this] False b show ?thesis
      by (simp add: upt del: upt_Suc)
  qed
qed

lemma push_instructions_list:
  "push_instructions m inss t = Inr t' \<Longrightarrow>
     t' = t\<lparr>instructions := instructions t @ map (\<lambda>ins.
        \<lparr>keys = instruction_keys m ins,
         programId = at_index (accountKeys m) (programIdIndex ins),
         data = (case bs58_decode (ci_data ins) of Inr d \<Rightarrow> d | Inl e \<Rightarrow> [])\<rparr>) inss\<rparr>
     \<and> (\<forall>ins \<in> set inss. \<exists>d. bs58_decode (ci_data ins) = Inr d)"
proof (induction inss arbitrary: t)
  case Nil
  then show ?case by simp
next
  case (Cons ins inss)
  from Cons.prems obtain d where d: "bs58_decode (ci_data ins) = Inr d"
    by (auto split: sum.splits)
  with Cons.prems have "push_instructions m inss
      (t\<lparr>instructions := instructions t @ [\<lparr>keys = instruction_keys m ins, programId = at_index (accountKeys m) (programIdIndex ins), data = d\<rparr>]\<rparr>) = Inr t'"
    by simp
  from Cons.IH[OF this] d show ?case
    by simp
qed

lemma toTransaction_parts:
  assumes "Message_from raw = Inr m" and "toTransaction Message_from raw sigs = Inr t"
  shows "feePayer t = (if 0 < numRequiredSignatures (header m) then at_index (accountKeys m) 0 else None)"
    and "signatures t = map (\<lambda>(j, s).
        \<lparr>signature = (if s = toBase58 PublicKey_default then None
                      else (case bs58_decode s of Inr b \<Rightarrow> Some b | Inl e \<Rightarrow> None)),
         publicKey = at_index (accountKeys m) j\<rparr>) (zip [0 ..< length sigs] sigs)"
    and "\<forall>s \<in> set sigs. s \<noteq> toBase58 PublicKey_default \<longrightarrow> (\<exists>b. bs58_decode s = Inr b)"
    and "instructions t = map (\<lambda>ins.
        \<lparr>keys = instruction_keys m ins,
         programId = at_index (accountKeys m) (programIdIndex ins),
         data = (case bs58_decode (ci_data ins) of Inr d \<Rightarrow> d | Inl e \<Rightarrow> [])\<rparr>) (m_instructions m)"
    and "\<forall>ins \<in> set (m_instructions m). \<exists>d. bs58_decode (ci_data ins) = Inr d"
proof -
  define t1 where "t1 = (if numRequiredSignatures (header m) > 0
        then new_Transaction\<lparr>recentBlockhash := Some (m_recentBlockhash m),
                              feePayer := at_index (accountKeys m) 0\<rparr>
        else new_Transaction\<lparr>recentBlockhash := Some (m_recentBlockhash m)\<rparr>)"
  from assms obtain t2 where
    t2: "push_signatures m 0 sigs t1 = Inr t2" and
    t: "push_instructions m (m_instructions m) t2 = Inr t"
    by (auto simp: toTransaction_def Let_def t1_def bindE_eq_Inr split: if_splits)
  note a = push_signatures_list[OF t2] and b = push_instructions_list[OF t]
  have t1: "signatures t1 = []" "instructions t1 = []"
    "feePayer t1 = (if 0 < numRequiredSignatures (header m) then at_index (accountKeys m) 0 else None)"
    by (simp_all add: t1_def new_Transaction_def)
  from a b t1 show
    "feePayer t = (if 0 < numRequiredSignatures (header m) then at_index (accountKeys m) 0 else None)"
    by simp
  from a b t1 show "signatures t = map (\<lambda>(j, s).
        \<lparr>signature = (if s = toBase58 PublicKey_default then None
                      else (case bs58_decode s of Inr b \<Rightarrow> Some b | Inl e \<Rightarrow> None)),
         publicKey = at_index (accountKeys m) j\<rparr>) (zip [0 ..< length sigs] sigs)"
    by simp
  from a show "\<forall>s \<in> set sigs. s \<noteq> toBase58 PublicKey_default \<longrightarrow> (\<exists>b. bs58_decode s = Inr b)"
    by simp
  from a b t1 show "instructions t = map (\<lambda>ins.
        \<lparr>keys = instruction_keys m ins,
         programId = at_index (accountKeys m) (programIdIndex ins),
         data = (case bs58_decode (ci_data ins) of Inr d \<Rightarrow> d | Inl e \<Rightarrow> [])\<rparr>) (m_instructions m)"
    by simp
  from b show "\<forall>ins \<in> set (m_instructions m). \<exists>d. bs58_decode (ci_data ins) = Inr d"
    by simp
qed

lemma collect_lookup:
  assumes "\<forall>p\<in>set ps. publicKey p \<noteq> None"
    and "distinct (map (\<lambda>p. toBase58 (the (publicKey p))) ps)"
  shows "\<exists>sm. collect ps acc = Inr sm
     \<and> (\<forall>p\<in>set ps. sm (toBase58 (the (publicKey p))) =
           (case signature p of None \<Rightarrow> acc (toBase58 (the (publicKey p)))
            | Some sg \<Rightarrow> Some (to_hex sg)))
     \<and> (\<forall>k. k \<notin> (\<lambda>p. toBase58 (the (publicKey p))) ` set ps \<longrightarrow> sm k = acc k)"
  using assms
proof (induction ps arbitrary: acc)
  case Nil
  then show ?case by simp
next
  case (Cons cur rest)
  from Cons.prems obtain k where k: "publicKey cur = Some k" by auto
  from Cons.prems k have fresh: "toBase58 k \<notin> (\<lambda>p. toBase58 (the (publicKey p))) ` set rest"
    by auto
  from Cons.prems have rest: "\<forall>p\<in>set rest. publicKey p \<noteq> None"
    "distinct (map (\<lambda>p. toBase58 (the (publicKey p))) rest)"
    by auto
  show ?case
  proof (cases "signature cur")
    case None
    from Cons.IH[OF rest, of acc] obtain sm where sm: "collect rest acc = Inr sm"
      "\<forall>p\<in>set rest. sm (toBase58 (the (publicKey p))) =
           (case signature p of None \<Rightarrow> acc (toBase58 (the (publicKey p)))
            | Some sg \<Rightarrow> Some (to_hex sg))"
      "\<forall>k. k \<notin> (\<lambda>p. toBase58 (the (publicKey p))) ` set rest \<longrightarrow> sm k = acc k"
      by blast
    from sm(3) fresh have "sm (toBase58 k) = acc (toBase58 k)" by blast
    with sm None k show ?thesis by auto
  next
    case (Some sg)
    let ?acc = "acc(toBase58 k \<mapsto> to_hex sg)"
    from Cons.IH[OF rest, of ?acc] obtain sm where sm: "collect rest ?acc = Inr sm"
      "\<forall>p\<in>set rest. sm (toBase58 (the (publicKey p))) =
           (case signature p of None \<Rightarrow> ?acc (toBase58 (the (publicKey p)))
            | Some sg \<Rightarrow> Some (to_hex sg))"
      "\<forall>k. k \<notin> (\<lambda>p. toBase58 (the (publicKey p))) ` set rest \<longrightarrow> sm k = ?acc k"
      by blast
    from sm(3) fresh have here: "sm (toBase58 k) = Some (to_hex sg)" by simp
    have there: "sm (toBase58 (the (publicKey p))) =
           (case signature p of None \<Rightarrow> acc (toBase58 (the (publicKey p)))
            | Some sg \<Rightarrow> Some (to_hex sg))" if "p \<in> set rest" for p
    proof -
      from that fresh have "toBase58 (the (publicKey p)) \<noteq> toBase58 k"
        by (metis (mono_tags, lifting) image_eqI)
      with sm(2) that show ?thesis by (auto split: option.splits)
    qed
    from sm(3) have out: "\<forall>k'. k' \<notin> (\<lambda>p. toBase58 (the (publicKey p))) ` set (cur # rest) \<longrightarrow> sm k' = acc k'"
      using k by auto
    from sm(1) Some k here there out show ?thesis by auto
  qed
qed

subsection \<open>The codec on the example message\<close>

lemma nat_of_bytes_zeros: "nat_of_bytes 0 (replicate n 0) = 0"
  by (induction n) simp_all

lemma replicate_32:
  "replicate 32 x =
     [x, x, x, x, x, x, x, x, x, x, x, x, x, x, x, x, x, x, x, x, x, x, x, x, x, x, x, x, x, x, x, x]"
  by (simp add: numeral_eq_Suc)

lemma default_base58: "toBase58 PublicKey_default = ''11111111111111111111111111111111''"
  by (simp add: toBase58_def PublicKey_default_def bs58_encode_def nat_of_bytes_zeros
      b58_digits.simps)
     (simp add: replicate_32)

lemma sigA_not_default: "''sigA'' \<noteq> toBase58 PublicKey_default"
  by (simp add: default_base58)

lemma bs58_decode_sigA: "bs58_decode ''sigA'' = Inr [0x96, 0xff, 0x73]"
  by (simp add: bs58_decode_def b58_alphabet_def bytes_of_nat.simps)

lemma bs58_decode_2: "bs58_decode ''2'' = Inr [1]"
  by (simp add: bs58_decode_def b58_alphabet_def bytes_of_nat.simps)

lemma to_hex_sigA: "to_hex [0x96, 0xff, 0x73] = ''96ff73''"
  by (simp add: to_hex_def hex_digit_def)

lemma toBase58_key_A: "toBase58 key_A = ''11111111111111111111111111111112''"
  by (simp add: toBase58_def key_A_def bs58_encode_def b58_digits.simps b58_alphabet_def)

lemma toBase58_key_B: "toBase58 key_B = ''11111111111111111111111111111113''"
  by (simp add: toBase58_def key_B_def bs58_encode_def b58_digits.simps b58_alphabet_def)

lemma toTransaction_ex:
  "toTransaction Message_from_ex raw_ex [''sigA'', ''11111111111111111111111111111111''] = Inr tx_ex"
  using sigA_not_default
  by (simp add: toTransaction_def Message_from_ex_def)
     (simp add: msg_ex_def tx_ex_def new_Transaction_def
      at_index_def instruction_keys_def bs58_decode_sigA bs58_decode_2 default_base58)

lemma toTransaction_ex_one:
  "toTransaction Message_from_ex raw_ex [''sigA''] =
     Inr (tx_ex\<lparr>signatures := [\<lparr>signature = Some [0x96, 0xff, 0x73], publicKey = Some key_A\<rparr>]\<rparr>)"
  using sigA_not_default
  by (simp add: toTransaction_def Message_from_ex_def)
     (simp add: msg_ex_def tx_ex_def new_Transaction_def
      at_index_def instruction_keys_def bs58_decode_sigA bs58_decode_2)

lemma toTransaction_blockhash:
  assumes "Message_from raw = Inr m" and "toTransaction Message_from raw sigs = Inr t"
  shows "recentBlockhash t = Some (m_recentBlockhash m)"
proof -
  define t1 where "t1 = (if numRequiredSignatures (header m) > 0
        then new_Transaction\<lparr>recentBlockhash := Some (m_recentBlockhash m),
                              feePayer := at_index (accountKeys m) 0\<rparr>
        else new_Transaction\<lparr>recentBlockhash := Some (m_recentBlockhash m)\<rparr>)"
  from assms obtain t2 where
    t2: "push_signatures m 0 sigs t1 = Inr t2" and
    t: "push_instructions m (m_instructions m) t2 = Inr t"
    by (auto simp: toTransaction_def Let_def t1_def bindE_eq_Inr split: if_splits)
  from push_signatures_list[OF t2] push_instructions_list[OF t] show ?thesis
    by (simp add: t1_def)
qed

lemma toTransaction_result:
  assumes "Message_from raw = Inr m" and "toTransaction Message_from raw sigs = Inr t"
  shows "feePayer t = (if 0 < numRequiredSignatures (header m) then at_index (accountKeys m) 0 else None)
    \<and> (accountKeys m \<noteq> [] \<longrightarrow>
         (feePayer t = Some (accountKeys m ! 0) \<longleftrightarrow> 0 < numRequiredSignatures (header m)))
    \<and> length (signatures t) = length sigs
    \<and> (\<forall>i<length sigs.
          publicKey (signatures t ! i) = at_index (accountKeys m) i
        \<and> (signature (signatures t ! i) = None \<longleftrightarrow> sigs ! i = toBase58 PublicKey_default)
        \<and> (sigs ! i \<noteq> toBase58 PublicKey_default \<longrightarrow>
             (\<exists>b. bs58_decode (sigs ! i) = Inr b \<and> signature (signatures t ! i) = Some b)))
    \<and> length (instructions t) = length (m_instructions m)
    \<and> (\<forall>j<length (m_instructions m).
          programId (instructions t ! j) =
            at_index (accountKeys m) (programIdIndex (m_instructions m ! j))
        \<and> bs58_decode (ci_data (m_instructions m ! j)) = Inr (data (instructions t ! j))
        \<and> length (keys (instructions t ! j)) = length (ci_accounts (m_instructions m ! j))
        \<and> (\<forall>k<length (ci_accounts (m_instructions m ! j)).
              pubkey (keys (instructions t ! j) ! k) =
                at_index (accountKeys m) (ci_accounts (m_instructions m ! j) ! k)
            \<and> isSigner (keys (instructions t ! j) ! k) =
                (ci_accounts (m_instructions m ! j) ! k < numRequiredSignatures (header m))
            \<and> isWritable (keys (instructions t ! j) ! k) =
                isAccountWritable m (ci_accounts (m_instructions m ! j) ! k)))"
proof -
  note p = toTransaction_parts[OF assms]
  have fee: "feePayer t = (if 0 < numRequiredSignatures (header m) then at_index (accountKeys m) 0 else None)"
    by (rule p(1))
  have fee_iff: "accountKeys m \<noteq> [] \<longrightarrow>
         (feePayer t = Some (accountKeys m ! 0) \<longleftrightarrow> 0 < numRequiredSignatures (header m))"
    by (simp add: fee at_index_def)
  have len_s: "length (signatures t) = length sigs"
    by (simp add: p(2))
  have sigs: "publicKey (signatures t ! i) = at_index (accountKeys m) i
        \<and> (signature (signatures t ! i) = None \<longleftrightarrow> sigs ! i = toBase58 PublicKey_default)
        \<and> (sigs ! i \<noteq> toBase58 PublicKey_default \<longrightarrow>
             (\<exists>b. bs58_decode (sigs ! i) = Inr b \<and> signature (signatures t ! i) = Some b))"
    if "i < length sigs" for i
  proof -
    from that have "sigs ! i \<in> set sigs" by simp
    with p(3) have "sigs ! i \<noteq> toBase58 PublicKey_default \<longrightarrow> (\<exists>b. bs58_decode (sigs ! i) = Inr b)"
      by blast
    with that show ?thesis
      by (auto simp: p(2))
  qed
  have len_i: "length (instructions t) = length (m_instructions m)"
    by (simp add: p(4))
  have ins: "programId (instructions t ! j) =
            at_index (accountKeys m) (programIdIndex (m_instructions m ! j))
        \<and> bs58_decode (ci_data (m_instructions m ! j)) = Inr (data (instructions t ! j))
        \<and> length (keys (instructions t ! j)) = length (ci_accounts (m_instructions m ! j))
        \<and> (\<forall>k<length (ci_accounts (m_instructions m ! j)).
              pubkey (keys (instructions t ! j) ! k) =
                at_index (accountKeys m) (ci_accounts (m_instructions m ! j) ! k)
            \<and> isSigner (keys (instructions t ! j) ! k) =
                (ci_accounts (m_instructions m ! j) ! k < numRequiredSignatures (header m))
            \<and> isWritable (keys (instructions t ! j) ! k) =
                isAccountWritable m (ci_accounts (m_instructions m ! j) ! k))"
    if "j < length (m_instructions m)" for j
  proof -
    from that have "m_instructions m ! j \<in> set (m_instructions m)" by simp
    with p(5) obtain d where "bs58_decode (ci_data (m_instructions m ! j)) = Inr d"
      by blast
    with that show ?thesis
      by (simp add: p(4) instruction_keys_def)
  qed
  from fee fee_iff len_s sigs len_i ins show ?thesis
    by blast
qed

lemma collect_of_result:
  assumes "Message_from raw = Inr m" and "toTransaction Message_from raw sigs = Inr t"
    and "length sigs \<le> length (accountKeys m)"
    and "distinct (map toBase58 (take (length sigs) (accountKeys m)))"
    and "i < length sigs"
  shows "\<exists>sm. collectSignatures t = Inr sm
     \<and> (if sigs ! i = toBase58 PublicKey_default
        then sm (toBase58 (accountKeys m ! i)) = None
        else (\<exists>b. bs58_decode (sigs ! i) = Inr b \<and> sm (toBase58 (accountKeys m ! i)) = Some (to_hex b)))
     \<and> (\<forall>k. k \<notin> toBase58 ` set (take (length sigs) (accountKeys m)) \<longrightarrow> sm k = None)"
proof -
  note p = toTransaction_parts[OF assms(1,2)]
  let ?ps = "signatures t"
  have len: "length ?ps = length sigs" by (simp add: p(2))
  have pk: "publicKey (?ps ! j) = Some (accountKeys m ! j)" if "j < length sigs" for j
    using that assms(3) by (simp add: p(2) at_index_def)
  have keys_eq: "map (\<lambda>p. toBase58 (the (publicKey p))) ?ps = map toBase58 (take (length sigs) (accountKeys m))"
    using assms(3) by (intro nth_equalityI) (simp_all add: len pk)
  have nonnull: "\<forall>p\<in>set ?ps. publicKey p \<noteq> None"
    using pk len by (metis in_set_conv_nth option.distinct(1))
  have dist: "distinct (map (\<lambda>p. toBase58 (the (publicKey p))) ?ps)"
    using assms(4) by (simp only: keys_eq)
  from collect_lookup[OF nonnull dist, of Map.empty] obtain sm where
    sm: "collect ?ps Map.empty = Inr sm"
      "\<forall>p\<in>set ?ps. sm (toBase58 (the (publicKey p))) =
           (case signature p of None \<Rightarrow> None | Some sg \<Rightarrow> Some (to_hex sg))"
      "\<forall>k. k \<notin> (\<lambda>p. toBase58 (the (publicKey p))) ` set ?ps \<longrightarrow> sm k = None"
    by auto
  have img: "(\<lambda>p. toBase58 (the (publicKey p))) ` set ?ps = toBase58 ` set (take (length sigs) (accountKeys m))"
    using keys_eq by (metis list.set_map)
  from assms(5) len have mem: "?ps ! i \<in> set ?ps" by simp
  from sm(2) mem pk[OF assms(5)] have at_i: "sm (toBase58 (accountKeys m ! i)) =
      (case signature (?ps ! i) of None \<Rightarrow> None | Some sg \<Rightarrow> Some (to_hex sg))"
    by fastforce
  from assms(5) have "sigs ! i \<in> set sigs" by simp
  with p(3) have dec: "sigs ! i \<noteq> toBase58 PublicKey_default \<longrightarrow> (\<exists>b. bs58_decode (sigs ! i) = Inr b)"
    by blast
  have slot: "signature (?ps ! i) = (if sigs ! i = toBase58 PublicKey_default then None
      else (case bs58_decode (sigs ! i) of Inr b \<Rightarrow> Some b | Inl e \<Rightarrow> None))"
    using assms(5) by (simp add: p(2))
  from sm(1) at_i dec slot sm(3) img show ?thesis
    by (auto simp: collectSignatures_def)
qed

subsection \<open>When the decoder returns\<close>

lemma index_of_None: "index_of c xs = None \<longleftrightarrow> c \<notin> set xs"
  by (induction xs) auto

lemma b58_value_ok: "(\<exists>n. b58_value acc s = Inr n) \<longleftrightarrow> is_base58 s"
proof (induction s arbitrary: acc)
  case Nil
  then show ?case by (simp add: is_base58_def)
next
  case (Cons c cs)
  show ?case
  proof (cases "index_of c b58_alphabet")
    case None
    then have "c \<notin> set b58_alphabet" by (simp add: index_of_None)
    with None show ?thesis by (simp add: is_base58_def)
  next
    case (Some d)
    then have "c \<in> set b58_alphabet" using index_of_None[of c b58_alphabet] by auto
    with Some Cons.IH[of "acc * 58 + d"] show ?thesis by (simp add: is_base58_def)
  qed
qed

lemma bs58_decode_ok: "(\<exists>b. bs58_decode s = Inr b) \<longleftrightarrow> is_base58 s"
proof -
  have "(\<exists>b. bs58_decode s = Inr b) \<longleftrightarrow> (\<exists>n. b58_value 0 s = Inr n)"
    by (cases "b58_value 0 s") (simp_all add: bs58_decode_def)
  then show ?thesis by (simp add: b58_value_ok)
qed

lemma default_is_base58: "is_base58 (toBase58 PublicKey_default)"
  by (simp add: default_base58 is_base58_def b58_alphabet_def)

lemma push_signatures_total:
  "list_all is_base58 sigs \<Longrightarrow> \<exists>t'. push_signatures m i sigs t = Inr t'"
proof (induction sigs arbitrary: i t)
  case Nil
  then show ?case by simp
next
  case (Cons s sigs)
  then have "is_base58 s" by simp
  then obtain b where "bs58_decode s = Inr b" using bs58_decode_ok by blast
  with Cons show ?case by simp
qed

lemma push_instructions_total:
  "list_all (\<lambda>ins. is_base58 (ci_data ins)) inss \<Longrightarrow> \<exists>t'. push_instructions m inss t = Inr t'"
proof (induction inss arbitrary: t)
  case Nil
  then show ?case by simp
next
  case (Cons ins inss)
  then have "is_base58 (ci_data ins)" by simp
  then obtain d where "bs58_decode (ci_data ins) = Inr d" using bs58_decode_ok by blast
  with Cons show ?case by simp
qed

lemma toTransaction_returns_iff:
  assumes "Message_from raw = Inr m"
  shows "(\<exists>t. toTransaction Message_from raw sigs = Inr t)
     \<longleftrightarrow> list_all is_base58 sigs \<and> list_all (\<lambda>ins. is_base58 (ci_data ins)) (m_instructions m)"
proof
  assume "\<exists>t. toTransaction Message_from raw sigs = Inr t"
  then obtain t where t: "toTransaction Message_from raw sigs = Inr t" by blast
  note p = toTransaction_parts[OF assms t]
  have "is_base58 s" if "s \<in> set sigs" for s
  proof (cases "s = toBase58 PublicKey_default")
    case True
    then show ?thesis by (simp add: default_is_base58)
  next
    case False
    with p(3) that have "\<exists>b. bs58_decode s = Inr b" by blast
    then show ?thesis by (simp add: bs58_decode_ok)
  qed
  moreover have "is_base58 (ci_data ins)" if "ins \<in> set (m_instructions m)" for ins
    using p(5) that bs58_decode_ok by blast
  ultimately show "list_all is_base58 sigs
      \<and> list_all (\<lambda>ins. is_base58 (ci_data ins)) (m_instructions m)"
    by (simp add: list_all_iff)
next
  assume a: "list_all is_base58 sigs
      \<and> list_all (\<lambda>ins. is_base58 (ci_data ins)) (m_instructions m)"
  define t1 where "t1 = (if numRequiredSignatures (header m) > 0
        then new_Transaction\<lparr>recentBlockhash := Some (m_recentBlockhash m),
                              feePayer := at_index (accountKeys m) 0\<rparr>
        else new_Transaction\<lparr>recentBlockhash := Some (m_recentBlockhash m)\<rparr>)"
  from a push_signatures_total obtain t2 where t2: "push_signatures m 0 sigs t1 = Inr t2"
    by blast
  from a push_instructions_total obtain t3 where
    "push_instructions m (m_instructions m) t2 = Inr t3"
    by blast
  with t2 assms show "\<exists>t. toTransaction Message_from raw sigs = Inr t"
    by (auto simp: toTransaction_def Let_def t1_def)
qed

section \<open>Claims on the codec\<close>

text \<open>
  C4. For every wire message that the library decodes, \<open>toTransaction\<close> returns a
  transaction exactly when every supplied signature and every instruction's data is a
  Base58 string (otherwise \<open>bs58.decode\<close> throws), and the transaction it returns is
  this: the fee payer is the first account key when \<open>numRequiredSignatures > 0\<close> and stays
  unset otherwise (so, with a first key present, it is that key iff
  \<open>numRequiredSignatures > 0\<close>); slot \<open>i\<close> of the signatures carries account key \<open>i\<close> and
  is \<open>null\<close> iff the supplied signature is the Base58 form of the default public key,
  and otherwise is its Base58 decoding; instruction \<open>j\<close> keeps its place, and account
  index \<open>a\<close> at place \<open>k\<close> of it becomes the key at \<open>a\<close>, signer iff
  \<open>a < numRequiredSignatures\<close>, writable as \<open>isAccountWritable a\<close> says.
\<close>

theorem toTransaction_postconditions:
  assumes "Message_from raw = Inr m"
  shows "((\<exists>t. toTransaction Message_from raw sigs = Inr t)
           \<longleftrightarrow> list_all is_base58 sigs
               \<and> list_all (\<lambda>ins. is_base58 (ci_data ins)) (m_instructions m))
     \<and> (\<forall>t. toTransaction Message_from raw sigs = Inr t \<longrightarrow>
           feePayer t = (if 0 < numRequiredSignatures (header m) then at_index (accountKeys m) 0 else None)
    \<and> (accountKeys m \<noteq> [] \<longrightarrow>
         (feePayer t = Some (accountKeys m ! 0) \<longleftrightarrow> 0 < numRequiredSignatures (header m)))
    \<and> length (signatures t) = length sigs
    \<and> (\<forall>i<length sigs.
          publicKey (signatures t ! i) = at_index (accountKeys m) i
        \<and> (signature (signatures t ! i) = None \<longleftrightarrow> sigs ! i = toBase58 PublicKey_default)
        \<and> (sigs ! i \<noteq> toBase58 PublicKey_default \<longrightarrow>
             (\<exists>b. bs58_decode (sigs ! i) = Inr b \<and> signature (signatures t ! i) = Some b)))
    \<and> length (instructions t) = length (m_instructions m)
    \<and> (\<forall>j<length (m_instructions m).
          programId (instructions t ! j) =
            at_index (accountKeys m) (programIdIndex (m_instructions m ! j))
        \<and> bs58_decode (ci_data (m_instructions m ! j)) = Inr (data (instructions t ! j))
        \<and> length (keys (instructions t ! j)) = length (ci_accounts (m_instructions m ! j))
        \<and> (\<forall>k<length (ci_accounts (m_instructions m ! j)).
              pubkey (keys (instructions t ! j) ! k) =
                at_index (accountKeys m) (ci_accounts (m_instructions m ! j) ! k)
            \<and> isSigner (keys (instructions t ! j) ! k) =
                (ci_accounts (m_instructions m ! j) ! k < numRequiredSignatures (header m))
            \<and> isWritable (keys (instructions t ! j) ! k) =
                isAccountWritable m (ci_accounts (m_instructions m ! j) ! k)))
           \<and> recentBlockhash t = Some (m_recentBlockhash m))"
  using toTransaction_returns_iff[of Message_from raw m sigs, OF assms]
    toTransaction_result[of Message_from raw m sigs, OF assms]
    toTransaction_blockhash[of Message_from raw m sigs, OF assms]
  by blast

theorem toTransaction_postconditions_witness:
  "Message_from_ex raw_ex = Inr msg_ex
   \<and> list_all is_base58 [''sigA'', ''11111111111111111111111111111111'']
   \<and> list_all (\<lambda>ins. is_base58 (ci_data ins)) (m_instructions msg_ex)
   \<and> (\<exists>t. toTransaction Message_from_ex raw_ex [''sigA'', ''11111111111111111111111111111111'']
            = Inr t
        \<and> feePayer t = Some key_A
        \<and> length (signatures t) = 2
        \<and> publicKey (signatures t ! 1) = Some key_B
        \<and> signature (signatures t ! 1) = None
        \<and> signature (signatures t ! 0) = Some [0x96, 0xff, 0x73]
        \<and> isSigner (keys (instructions t ! 0) ! 0)
        \<and> \<not> isSigner (keys (instructions t ! 0) ! 1))"
proof -
  have h1: "Message_from_ex raw_ex = Inr msg_ex"
    by (simp add: Message_from_ex_def)
  have ok: "list_all is_base58 [''sigA'', ''11111111111111111111111111111111'']"
    "list_all (\<lambda>ins. is_base58 (ci_data ins)) (m_instructions msg_ex)"
    by (simp_all add: is_base58_def b58_alphabet_def msg_ex_def)
  note th = toTransaction_postconditions[of Message_from_ex raw_ex msg_ex
      "[''sigA'', ''11111111111111111111111111111111'']", OF h1]
  from th ok obtain t where
    t: "toTransaction Message_from_ex raw_ex [''sigA'', ''11111111111111111111111111111111'']
          = Inr t"
    by blast
  from th t have post: "feePayer t = (if 0 < numRequiredSignatures (header msg_ex) then at_index (accountKeys msg_ex) 0 else None)
    \<and> (accountKeys msg_ex \<noteq> [] \<longrightarrow>
         (feePayer t = Some (accountKeys msg_ex ! 0) \<longleftrightarrow> 0 < numRequiredSignatures (header msg_ex)))
    \<and> length (signatures t) = length [''sigA'', ''11111111111111111111111111111111'']
    \<and> (\<forall>i<length [''sigA'', ''11111111111111111111111111111111''].
          publicKey (signatures t ! i) = at_index (accountKeys msg_ex) i
        \<and> (signature (signatures t ! i) = None \<longleftrightarrow> [''sigA'', ''11111111111111111111111111111111''] ! i = toBase58 PublicKey_default)
        \<and> ([''sigA'', ''11111111111111111111111111111111''] ! i \<noteq> toBase58 PublicKey_default \<longrightarrow>
             (\<exists>b. bs58_decode ([''sigA'', ''11111111111111111111111111111111''] ! i) = Inr b \<and> signature (signatures t ! i) = Some b)))
    \<and> length (instructions t) = length (m_instructions msg_ex)
    \<and> (\<forall>j<length (m_instructions msg_ex).
          programId (instructions t ! j) =
            at_index (accountKeys msg_ex) (programIdIndex (m_instructions msg_ex ! j))
        \<and> bs58_decode (ci_data (m_instructions msg_ex ! j)) = Inr (data (instructions t ! j))
        \<and> length (keys (instructions t ! j)) = length (ci_accounts (m_instructions msg_ex ! j))
        \<and> (\<forall>k<length (ci_accounts (m_instructions msg_ex ! j)).
              pubkey (keys (instructions t ! j) ! k) =
                at_index (accountKeys msg_ex) (ci_accounts (m_instructions msg_ex ! j) ! k)
            \<and> isSigner (keys (instructions t ! j) ! k) =
                (ci_accounts (m_instructions msg_ex ! j) ! k < numRequiredSignatures (header msg_ex))
            \<and> isWritable (keys (instructions t ! j) ! k) =
                isAccountWritable msg_ex (ci_accounts (m_instructions msg_ex ! j) ! k)))"
    by blast
  have n: "numRequiredSignatures (header msg_ex) = 1" "accountKeys msg_ex = [key_A, key_B]"
    "m_instructions msg_ex = [\<lparr>programIdIndex = 1, ci_accounts = [0, 1], ci_data = ''2''\<rparr>]"
    by (simp_all add: msg_ex_def)
  from post have "feePayer t = Some key_A" "length (signatures t) = 2"
    by (simp_all add: n at_index_def)
  moreover from post have "publicKey (signatures t ! 1) = Some key_B
      \<and> signature (signatures t ! 1) = None"
    by (simp add: n at_index_def default_base58)
  moreover from post sigA_not_default have "signature (signatures t ! 0) = Some [0x96, 0xff, 0x73]"
    by (auto simp: bs58_decode_sigA)
  moreover from post have "isSigner (keys (instructions t ! 0) ! 0)
      \<and> \<not> isSigner (keys (instructions t ! 0) ! 1)"
    by (simp add: n)
  ultimately show ?thesis using h1 ok t by blast
qed

text \<open>
  C3, as the code has it. Take a wire message that the library decodes, a signature
  list no longer than its account keys, every supplied signature and every
  instruction's data a Base58 string, and the keys of the slots having distinct
  addresses. Then decoding with that list and collecting the signatures again returns a
  mapping which, for the account key at slot \<open>i\<close>, has no entry when the supplied
  signature is the Base58 form of the default public key, and otherwise has the
  hexadecimal form of the bytes the supplied Base58 signature decodes to; addresses of
  no slot have no entry.
\<close>

theorem collectSignatures_toTransaction:
  assumes "Message_from raw = Inr m"
    and "list_all is_base58 sigs"
    and "list_all (\<lambda>ins. is_base58 (ci_data ins)) (m_instructions m)"
    and "length sigs \<le> length (accountKeys m)"
    and "distinct (map toBase58 (take (length sigs) (accountKeys m)))"
    and "i < length sigs"
  shows "\<exists>sm. bindE (toTransaction Message_from raw sigs) collectSignatures = Inr sm
     \<and> (if sigs ! i = toBase58 PublicKey_default
        then sm (toBase58 (accountKeys m ! i)) = None
        else (\<exists>b. bs58_decode (sigs ! i) = Inr b \<and> sm (toBase58 (accountKeys m ! i)) = Some (to_hex b)))
     \<and> (\<forall>k. k \<notin> toBase58 ` set (take (length sigs) (accountKeys m)) \<longrightarrow> sm k = None)"
proof -
  from toTransaction_returns_iff[of Message_from raw m sigs, OF assms(1)] assms(2,3)
  obtain t where t: "toTransaction Message_from raw sigs = Inr t" by blast
  from collect_of_result[OF assms(1) t assms(4-6)] t show ?thesis by simp
qed

theorem collectSignatures_toTransaction_witness:
  "Message_from_ex raw_ex = Inr msg_ex
   \<and> (\<exists>sm. bindE (toTransaction Message_from_ex raw_ex
                     [''sigA'', ''11111111111111111111111111111111''])
               collectSignatures = Inr sm
         \<and> sm (toBase58 key_A) = Some ''96ff73'' \<and> sm (toBase58 key_B) = None)"
proof -
  let ?sigs = "[''sigA'', ''11111111111111111111111111111111'']"
  have h1: "Message_from_ex raw_ex = Inr msg_ex"
    by (simp add: Message_from_ex_def)
  have ok: "list_all is_base58 ?sigs"
    "list_all (\<lambda>ins. is_base58 (ci_data ins)) (m_instructions msg_ex)"
    by (simp_all add: is_base58_def b58_alphabet_def msg_ex_def)
  have h3: "length ?sigs \<le> length (accountKeys msg_ex)"
    by (simp add: msg_ex_def)
  have h4: "distinct (map toBase58 (take (length ?sigs) (accountKeys msg_ex)))"
    by (simp add: msg_ex_def toBase58_key_A toBase58_key_B)
  from collectSignatures_toTransaction[of Message_from_ex raw_ex msg_ex ?sigs 0, OF h1 ok h3 h4]
  obtain sm where sm: "bindE (toTransaction Message_from_ex raw_ex ?sigs) collectSignatures = Inr sm"
    "sm (toBase58 key_A) = Some ''96ff73''"
    using sigA_not_default by (auto simp: msg_ex_def bs58_decode_sigA to_hex_sigA)
  from collectSignatures_toTransaction[of Message_from_ex raw_ex msg_ex ?sigs 1, OF h1 ok h3 h4] sm(1)
  have "sm (toBase58 key_B) = None"
    by (simp add: msg_ex_def default_base58)
  with sm h1 show ?thesis by blast
qed

text \<open>
  C3 as stated fails: with \<open>''sigA''\<close> supplied for the first key, the collected entry is
  \<open>''96ff73''\<close>, the hexadecimal form of the three bytes that \<open>''sigA''\<close> decodes to,
  not \<open>''sigA''\<close>.
\<close>

theorem roundtrip_counterexample:
  "''sigA'' \<noteq> toBase58 PublicKey_default
   \<and> bindE (toTransaction Message_from_ex raw_ex [''sigA'']) collectSignatures
       = Inr [toBase58 key_A \<mapsto> ''96ff73'']
   \<and> bindE (toTransaction Message_from_ex raw_ex [''sigA'']) collectSignatures
       \<noteq> Inr [toBase58 key_A \<mapsto> ''sigA'']"
proof -
  have run: "bindE (toTransaction Message_from_ex raw_ex [''sigA'']) collectSignatures
       = Inr [toBase58 key_A \<mapsto> ''96ff73'']"
    by (simp add: toTransaction_ex_one collectSignatures_def tx_ex_def to_hex_sigA)
  have "[toBase58 key_A \<mapsto> ''96ff73''] (toBase58 key_A) \<noteq> [toBase58 key_A \<mapsto> ''sigA''] (toBase58 key_A)"
    by simp
  then have "[toBase58 key_A \<mapsto> ''96ff73''] \<noteq> [toBase58 key_A \<mapsto> ''sigA'']"
    by metis
  with run sigA_not_default show ?thesis by simp
qed

section \<open>Lemmas on the provider\<close>

lemma emit_fields [simp]:
  "connected (emit e s) = connected s"
  "code (emit e s) = code s"
  "accounts (emit e s) = accounts s"
  "server (emit e s) = server s"
  "rpc (emit e s) = rpc s"
  "has_window (emit e s) = has_window s"
  "origin (emit e s) = origin s"
  "body_frames (emit e s) = body_frames s"
  "created (emit e s) = created s"
  "listeners (emit e s) = listeners s"
  "registered (emit e s) = registered s"
  "promises (emit e s) = promises s"
  "intervals (emit e s) = intervals s"
  "timers (emit e s) = timers s"
  "log (emit e s) = log s @ [e]"
  by (simp_all add: emit_def)

lemma array_index_name: "hd k \<notin> set ''0123456789'' \<Longrightarrow> array_index k = None"
  by (cases k) (simp_all add: array_index_def)

lemma insert_prop_name: "array_index k = None \<Longrightarrow> insert_prop k v kvs = kvs @ [(k, v)]"
  by (induction kvs) (auto simp: goes_before_def)

lemma obj_set_new_name:
  "k \<notin> fst ` set kvs \<Longrightarrow> array_index k = None \<Longrightarrow> obj_set k v kvs = kvs @ [(k, v)]"
  by (simp add: obj_set_def insert_prop_name)

lemma spread_message:
  "spread [(''sessionId'', c)] (JObj [(''message'', v)])
     = JObj [(''sessionId'', c), (''message'', v)]"
  by (simp add: spread_def obj_set_new_name array_index_name)

lemma connect_without_window:
  "\<not> has_window s \<Longrightarrow>
     connect s = (length (promises s),
                  s\<lparr>promises := promises s @ [Rejected (JStr ''Currently only supported in browser'')]\<rparr>)"
  by (simp add: connect_def new_promise_def settle_def nth_append)

lemma then_do_simps [simp]:
  "then_do (Inl es) f = Inl es"
  "then_do (Inr s) f = f s"
  by (simp_all add: then_do_def)

lemma run_callback_simps [simp]:
  "run_callback (Inl (err, s)) = emit (Uncaught err) s"
  "run_callback (Inr s) = s"
  by (simp_all add: run_callback_def)

lemma promise_state_settle:
  "p < length (promises s) \<Longrightarrow> promise_state s p = Pending \<Longrightarrow>
     promise_state (settle p out s) p = out"
  by (simp add: promise_state_def settle_def)

lemma connect_with_window:
  "has_window s \<Longrightarrow>
     connect s =
       (length (promises s),
        s\<lparr>promises := promises s @ [Pending],
          created := Suc (created s),
          body_frames :=
            filter (\<lambda>g. g \<noteq> \<lparr>frame_id = created s, src = AuthnFrameUrl (server s) (origin s)\<rparr>)
              (body_frames s)
            @ [\<lparr>frame_id = created s, src = AuthnFrameUrl (server s) (origin s)\<rparr>],
          listeners := listeners s @
            [\<lparr>listener_id = registered s,
              loginFrame = \<lparr>frame_id = created s, src = AuthnFrameUrl (server s) (origin s)\<rparr>,
              l_promise = length (promises s)\<rparr>],
          registered := Suc (registered s)\<rparr>)"
  by (simp add: connect_def new_promise_def createFrame_def attachFrame_def
      addSelfRemovableHandler_def)

section \<open>Claims on the handshake, the router and the authorization\<close>

text \<open>
  C9. Without \<open>window\<close>, \<open>connect()\<close> returns a promise rejected with
  \<open>'Currently only supported in browser'\<close> (the environment error), and nothing else
  changes: no frame is created or attached, no listener is registered, nothing is sent.
\<close>

theorem connect_no_window:
  "\<not> has_window s \<Longrightarrow>
     connect s = (length (promises s),
                  s\<lparr>promises := promises s @ [Rejected (JStr ''Currently only supported in browser'')]\<rparr>)
     \<and> promise_state (snd (connect s)) (fst (connect s)) =
         Rejected (JStr ''Currently only supported in browser'')
     \<and> body_frames (snd (connect s)) = body_frames s
     \<and> created (snd (connect s)) = created s
     \<and> listeners (snd (connect s)) = listeners s
     \<and> log (snd (connect s)) = log s"
  by (simp add: connect_without_window promise_state_def)

theorem connect_no_window_witness:
  "\<not> has_window (sys_ex\<lparr>has_window := False\<rparr>)
   \<and> connect (sys_ex\<lparr>has_window := False\<rparr>) =
       (0, sys_ex\<lparr>has_window := False,
                  promises := [Rejected (JStr ''Currently only supported in browser'')]\<rparr>)"
  using connect_no_window[of "sys_ex\<lparr>has_window := False\<rparr>"]
  by (simp add: sys_ex_def)

text \<open>
  C10. Without \<open>window\<close>, \<open>handleSignAndSendTransaction\<close> still sends the \<open>POST\<close> to
  the authorize endpoint, and that request is all it leaves behind; the call is rejected
  in every case, and with the environment error once the backend has answered with an
  authorization.
\<close>

theorem authorize_before_window_check:
  assumes "\<not> has_window s"
  shows "snd (handleSignAndSendTransaction w payload s) =
           emit (Fetch POST (AuthzUrl (server s) (code s))
                   (spread [(''sessionId'', code s)] (params payload))) s
     \<and> (\<exists>r. fst (handleSignAndSendTransaction w payload s) = Rejected r)
     \<and> (\<forall>json aid.
           http w POST (AuthzUrl (server s) (code s))
             (spread [(''sessionId'', code s)] (params payload)) = Inr json
           \<and> get_prop json ''authorizationId'' = Inr aid
           \<longrightarrow> fst (handleSignAndSendTransaction w payload s) =
                 Rejected (JError ''Error'' ''Currently only supported in browser''))"
  using assms
  by (auto simp: handleSignAndSendTransaction_def Let_def split: sum.splits)

theorem authorize_before_window_check_witness:
  "\<not> has_window (sys_connected\<lparr>has_window := False\<rparr>)
   \<and> handleSignAndSendTransaction env_ex
        \<lparr>method_name = ''signAndSendTransaction'', params = JObj [(''message'', JStr ''0a'')]\<rparr>
        (sys_connected\<lparr>has_window := False\<rparr>)
     = (Rejected (JError ''Error'' ''Currently only supported in browser''),
        sys_connected\<lparr>has_window := False,
          log := [Fetch POST (AuthzUrl ''https://wallet.example'' (JStr ''c0''))
                    (JObj [(''sessionId'', JStr ''c0''), (''message'', JStr ''0a'')])]\<rparr>)"
proof -
  let ?s = "sys_connected\<lparr>has_window := False\<rparr>"
  let ?p = "\<lparr>method_name = ''signAndSendTransaction'', params = JObj [(''message'', JStr ''0a'')]\<rparr>"
  have nw: "\<not> has_window ?s" by simp
  have post: "http env_ex POST (AuthzUrl (server ?s) (code ?s))
      (spread [(''sessionId'', code ?s)] (params ?p)) = Inr (JObj [(''authorizationId'', JStr ''a1'')])"
    by (simp add: env_ex_def)
  have aid: "get_prop (JObj [(''authorizationId'', JStr ''a1'')]) ''authorizationId'' = Inr (JStr ''a1'')"
    by simp
  from authorize_before_window_check[OF nw, of env_ex ?p] post aid
  have "handleSignAndSendTransaction env_ex ?p ?s =
      (Rejected (JError ''Error'' ''Currently only supported in browser''),
       emit (Fetch POST (AuthzUrl (server ?s) (code ?s))
                   (spread [(''sessionId'', code ?s)] (params ?p))) ?s)"
    by (metis prod.collapse)
  then show ?thesis
    by (simp add: sys_connected_def sys_ex_def spread_message emit_def)
qed

lemma handler_cancel:
  assumes "ev_origin e = server s"
    and "get_prop (ev_data e) ''type'' = Inr (JStr ''FCL::CHALLENGE::CANCEL'')"
    and "loginFrame l \<in> set (body_frames s)"
  shows "handler l e s =
     settle (l_promise l) (Rejected JUndefined)
       (s\<lparr>listeners := filter (\<lambda>x. x \<noteq> l) (listeners s),
          body_frames := filter (\<lambda>g. g \<noteq> loginFrame l) (body_frames s)\<rparr>)"
  using assms
  by (simp add: handler_def challenge_cancel_def removeListener_def detatchFrame_def)

lemma handler_other:
  assumes "ev_origin e \<noteq> server s
     \<or> (\<exists>ty. get_prop (ev_data e) ''type'' = Inr ty
           \<and> ty \<noteq> JStr ''FCL::CHALLENGE::RESPONSE'' \<and> ty \<noteq> JStr ''FCL::CHALLENGE::CANCEL'')"
  shows "handler l e s = s"
  using assms by (auto simp: handler_def)

lemma handler_throws:
  assumes "ev_origin e = server s" and "get_prop (ev_data e) ''type'' = Inl err"
  shows "handler l e s = emit (Uncaught err) s"
  using assms by (simp add: handler_def)

lemma get_prop_nullish:
  "v = JNull \<or> v = JUndefined \<Longrightarrow> \<exists>msg. get_prop v k = Inl (JError ''TypeError'' msg)"
  by auto

text \<open>
  C6, as the code has it. When the handler of a pending handshake receives a message
  from the service origin whose type is \<open>FCL::CHALLENGE::CANCEL\<close>, its listener is
  removed, the login frame is detached and the promise of \<open>connect\<close> is rejected, with
  no reason: the code calls \<open>reject()\<close>, so the caller gets \<open>undefined\<close>, not an error.
  A message from another origin, or from the service origin with a type that is neither
  the response nor the cancel type, changes nothing: the listener stays. A message from
  the service origin whose data is \<open>null\<close> or \<open>undefined\<close> makes the handler throw a
  \<open>TypeError\<close> that nobody catches; listener, frame and promise stay as they are.
\<close>

theorem handshake_cancel:
  "(ev_origin e = server s
      \<and> get_prop (ev_data e) ''type'' = Inr (JStr ''FCL::CHALLENGE::CANCEL'')
      \<and> l \<in> set (listeners s) \<and> loginFrame l \<in> set (body_frames s)
      \<and> l_promise l < length (promises s) \<and> promise_state s (l_promise l) = Pending
    \<longrightarrow> l \<notin> set (listeners (handler l e s))
        \<and> loginFrame l \<notin> set (body_frames (handler l e s))
        \<and> promise_state (handler l e s) (l_promise l) = Rejected JUndefined)
   \<and> (ev_origin e \<noteq> server s
        \<or> (\<exists>ty. get_prop (ev_data e) ''type'' = Inr ty
              \<and> ty \<noteq> JStr ''FCL::CHALLENGE::RESPONSE'' \<and> ty \<noteq> JStr ''FCL::CHALLENGE::CANCEL'')
    \<longrightarrow> handler l e s = s)
   \<and> (ev_origin e = server s \<and> (ev_data e = JNull \<or> ev_data e = JUndefined)
    \<longrightarrow> (\<exists>msg. handler l e s = emit (Uncaught (JError ''TypeError'' msg)) s))"
proof (intro conjI impI)
  assume a: "ev_origin e = server s
      \<and> get_prop (ev_data e) ''type'' = Inr (JStr ''FCL::CHALLENGE::CANCEL'')
      \<and> l \<in> set (listeners s) \<and> loginFrame l \<in> set (body_frames s)
      \<and> l_promise l < length (promises s) \<and> promise_state s (l_promise l) = Pending"
  then have h: "handler l e s =
     settle (l_promise l) (Rejected JUndefined)
       (s\<lparr>listeners := filter (\<lambda>x. x \<noteq> l) (listeners s),
          body_frames := filter (\<lambda>g. g \<noteq> loginFrame l) (body_frames s)\<rparr>)"
    by (simp add: handler_cancel)
  show "l \<notin> set (listeners (handler l e s))"
    by (simp add: h settle_def)
  show "loginFrame l \<notin> set (body_frames (handler l e s))"
    by (simp add: h settle_def)
  from a have "l_promise l < length (promises s)" "promise_state s (l_promise l) = Pending"
    by simp_all
  then show "promise_state (handler l e s) (l_promise l) = Rejected JUndefined"
    by (simp add: h settle_def promise_state_def)
next
  assume "ev_origin e \<noteq> server s
        \<or> (\<exists>ty. get_prop (ev_data e) ''type'' = Inr ty
              \<and> ty \<noteq> JStr ''FCL::CHALLENGE::RESPONSE'' \<and> ty \<noteq> JStr ''FCL::CHALLENGE::CANCEL'')"
  then show "handler l e s = s" by (rule handler_other)
next
  assume n: "ev_origin e = server s \<and> (ev_data e = JNull \<or> ev_data e = JUndefined)"
  then obtain msg where "get_prop (ev_data e) ''type'' = Inl (JError ''TypeError'' msg)"
    using get_prop_nullish by blast
  with n show "\<exists>msg. handler l e s = emit (Uncaught (JError ''TypeError'' msg)) s"
    using handler_throws by blast
qed

lemma connect_sys_ex:
  "connect sys_ex = (0, sys_waiting)"
  by (simp add: connect_with_window sys_ex_def sys_waiting_def listener_ex_def)

lemma sys_waiting_facts:
  "listeners sys_waiting = [listener_ex]"
  "body_frames sys_waiting = [loginFrame listener_ex]"
  "promise_state sys_waiting 0 = Pending"
  "l_promise listener_ex = 0" "promises sys_waiting = [Pending]"
  "log sys_waiting = []"
  by (simp_all add: sys_waiting_def listener_ex_def sys_ex_def promise_state_def)

theorem handshake_cancel_witness:
  "snd (connect sys_ex) = sys_waiting
   \<and> listeners sys_waiting = [listener_ex]
   \<and> body_frames sys_waiting = [loginFrame listener_ex]
   \<and> promise_state sys_waiting 0 = Pending
   \<and> listeners (handler listener_ex cancel_event sys_waiting) = []
   \<and> body_frames (handler listener_ex cancel_event sys_waiting) = []
   \<and> promise_state (handler listener_ex cancel_event sys_waiting) 0 = Rejected JUndefined
   \<and> handler listener_ex other_event sys_waiting = sys_waiting
   \<and> listeners (handler listener_ex null_event sys_waiting) = [listener_ex]
   \<and> length (log (handler listener_ex null_event sys_waiting)) = 1
   \<and> dispatch_message cancel_event sys_waiting = handler listener_ex cancel_event sys_waiting"
proof -
  note pre = sys_waiting_facts
  have c: "ev_origin cancel_event = server sys_waiting
      \<and> get_prop (ev_data cancel_event) ''type'' = Inr (JStr ''FCL::CHALLENGE::CANCEL'')"
    by (simp add: cancel_event_def sys_waiting_def sys_ex_def)
  have o: "ev_origin other_event \<noteq> server sys_waiting"
    by (simp add: other_event_def sys_waiting_def sys_ex_def)
  have n: "ev_origin null_event = server sys_waiting \<and> ev_data null_event = JNull"
    by (simp add: null_event_def sys_waiting_def sys_ex_def)
  from handshake_cancel[of cancel_event sys_waiting listener_ex] c pre
  have 1: "listener_ex \<notin> set (listeners (handler listener_ex cancel_event sys_waiting))"
    "loginFrame listener_ex \<notin> set (body_frames (handler listener_ex cancel_event sys_waiting))"
    "promise_state (handler listener_ex cancel_event sys_waiting) 0 = Rejected JUndefined"
    by simp_all
  from handshake_cancel[of other_event sys_waiting listener_ex] o
  have 2: "handler listener_ex other_event sys_waiting = sys_waiting"
    by simp
  from handshake_cancel[of null_event sys_waiting listener_ex] n
  obtain msg where "handler listener_ex null_event sys_waiting
      = emit (Uncaught (JError ''TypeError'' msg)) sys_waiting"
    by auto
  then have 5: "listeners (handler listener_ex null_event sys_waiting) = [listener_ex]"
    "length (log (handler listener_ex null_event sys_waiting)) = 1"
    by (simp_all add: pre)
  have 3: "listeners (handler listener_ex cancel_event sys_waiting) = []"
    "body_frames (handler listener_ex cancel_event sys_waiting) = []"
    using c pre by (simp_all add: handler_cancel settle_def)
  have 4: "dispatch_message cancel_event sys_waiting = handler listener_ex cancel_event sys_waiting"
    by (simp add: dispatch_message_def pre)
  from connect_sys_ex pre 1 2 3 4 5 show ?thesis by simp
qed

text \<open>
  C6 as stated fails in two places. The cancelled handshake is rejected with
  \<open>undefined\<close>, which is no error object; and a message from the service origin with
  \<open>null\<close> data is not ignored: the handler throws, and the uncaught \<open>TypeError\<close> is
  reported.
\<close>

theorem handshake_cancel_counterexample:
  "promise_state (dispatch_message cancel_event (snd (connect sys_ex))) (fst (connect sys_ex))
     = Rejected JUndefined
   \<and> \<not> is_error JUndefined
   \<and> ev_origin null_event = server (snd (connect sys_ex))
   \<and> dispatch_message null_event (snd (connect sys_ex))
       = emit (Uncaught (JError ''TypeError'' ''Cannot read properties of null (reading type)''))
           (snd (connect sys_ex))
   \<and> dispatch_message null_event (snd (connect sys_ex)) \<noteq> snd (connect sys_ex)"
proof -
  note pre = sys_waiting_facts
  have c: "ev_origin cancel_event = server sys_waiting"
    "get_prop (ev_data cancel_event) ''type'' = Inr (JStr ''FCL::CHALLENGE::CANCEL'')"
    by (simp_all add: cancel_event_def sys_waiting_def sys_ex_def)
  have 1: "promise_state (dispatch_message cancel_event sys_waiting) 0 = Rejected JUndefined"
    using c pre by (simp add: dispatch_message_def handler_cancel settle_def promise_state_def)
  have n: "ev_origin null_event = server sys_waiting"
    "get_prop (ev_data null_event) ''type''
       = Inl (JError ''TypeError'' ''Cannot read properties of null (reading type)'')"
    by (simp_all add: null_event_def sys_waiting_def sys_ex_def)
  have 2: "dispatch_message null_event sys_waiting
       = emit (Uncaught (JError ''TypeError'' ''Cannot read properties of null (reading type)''))
           sys_waiting"
    by (simp add: dispatch_message_def pre handler_throws[OF n])
  have "log (emit (Uncaught (JError ''TypeError'' ''Cannot read properties of null (reading type)''))
           sys_waiting) \<noteq> log sys_waiting"
    by (simp add: pre)
  then have 3: "emit (Uncaught (JError ''TypeError'' ''Cannot read properties of null (reading type)''))
           sys_waiting \<noteq> sys_waiting"
    by metis
  from 1 2 3 n(1) show ?thesis by (simp add: connect_sys_ex)
qed

subsection \<open>Callers entering the guard together\<close>

lemma ensureConnected_fresh:
  assumes "\<not> connected s" and "has_window s"
    and "\<forall>f\<in>set (body_frames s). frame_id f < created s"
    and "ensureConnected s = (p, s1)"
  shows "p = Some (length (promises s))
     \<and> promises s1 = promises s @ [Pending]
     \<and> length (listeners s1) = Suc (length (listeners s))
     \<and> length (body_frames s1) = Suc (length (body_frames s))
     \<and> created s1 = Suc (created s)
     \<and> \<not> connected s1 \<and> has_window s1
     \<and> (\<forall>f\<in>set (body_frames s1). frame_id f < created s1)"
proof -
  let ?f = "\<lparr>frame_id = created s, src = AuthnFrameUrl (server s) (origin s)\<rparr>"
  from assms(3) have "?f \<notin> set (body_frames s)" by auto
  then have keep: "filter (\<lambda>g. g \<noteq> ?f) (body_frames s) = body_frames s"
    by (intro filter_True) blast
  from assms(1,2,4) have s1: "p = Some (length (promises s))"
    "s1 = snd (connect s)"
    by (auto simp: ensureConnected_def connect_with_window)
  from assms(1,2,3) show ?thesis
    unfolding s1 by (auto simp: connect_with_window keep less_Suc_eq)
qed

text \<open>
  C1, as the code has it. The guard keeps no record of a handshake in flight: when \<open>n\<close>
  callers enter it before any message is delivered (not connected, in a page), each call
  runs \<open>connect\<close>, so \<open>n\<close> frames are created and attached, \<open>n\<close> listeners are
  registered, and each caller awaits a pending promise of its own.
\<close>

theorem ensureConnected_times_n:
  assumes "\<not> connected s" and "has_window s"
    and "\<forall>f\<in>set (body_frames s). frame_id f < created s"
    and "ensureConnected_times n s = (ps, s')"
  shows "ps = map Some [length (promises s) ..< length (promises s) + n]
     \<and> promises s' = promises s @ replicate n Pending
     \<and> length (listeners s') = length (listeners s) + n
     \<and> length (body_frames s') = length (body_frames s) + n
     \<and> created s' = created s + n
     \<and> \<not> connected s'"
  using assms
proof (induction n arbitrary: s ps s')
  case 0
  then show ?case by simp
next
  case (Suc n)
  obtain p s1 where e: "ensureConnected s = (p, s1)" by (cases "ensureConnected s")
  obtain qs s2 where r: "ensureConnected_times n s1 = (qs, s2)"
    by (cases "ensureConnected_times n s1")
  from Suc.prems(4) e r have out: "ps = p # qs" "s' = s2" by simp_all
  note f = ensureConnected_fresh[OF Suc.prems(1-3) e]
  from f have pre: "\<not> connected s1" "has_window s1"
    "\<forall>f\<in>set (body_frames s1). frame_id f < created s1"
    by blast+
  note ih = Suc.IH[OF pre r]
  have upt: "[length (promises s) ..< length (promises s) + Suc n]
      = length (promises s) # [Suc (length (promises s)) ..< Suc (length (promises s)) + n]"
    by (simp add: upt_conv_Cons del: upt_Suc)
  from f ih show ?case
    unfolding out upt by (simp add: replicate_append_same del: upt_Suc)
qed

theorem ensureConnected_times_n_witness:
  "\<not> connected sys_ex \<and> has_window sys_ex
   \<and> fst (ensureConnected_times 3 sys_ex) = [Some 0, Some 1, Some 2]
   \<and> promises (snd (ensureConnected_times 3 sys_ex)) = [Pending, Pending, Pending]
   \<and> length (listeners (snd (ensureConnected_times 3 sys_ex))) = 3
   \<and> length (body_frames (snd (ensureConnected_times 3 sys_ex))) = 3"
proof -
  have h: "\<not> connected sys_ex" "has_window sys_ex"
    "\<forall>f\<in>set (body_frames sys_ex). frame_id f < created sys_ex"
    "promises sys_ex = []" "listeners sys_ex = []" "body_frames sys_ex = []"
    by (simp_all add: sys_ex_def)
  have "[0 ..< 3] = [0, 1, Suc (Suc 0)]"
    by (simp add: upt_conv_Cons numeral_3_eq_3)
  moreover have "replicate 3 Pending = [Pending, Pending, Pending]"
    by (simp add: numeral_3_eq_3)
  ultimately show ?thesis
    using ensureConnected_times_n[OF h(1-3) surjective_pairing, of 3] h
    by (simp add: numeral_2_eq_2)
qed

text \<open>
  C1 as stated fails: two callers entering the guard of an unconnected provider leave
  two login frames attached and two listeners registered, and await two different
  promises.
\<close>

theorem single_handshake_counterexample:
  "\<not> connected sys_ex
   \<and> fst (ensureConnected_times 2 sys_ex) = [Some 0, Some 1]
   \<and> length (listeners (snd (ensureConnected_times 2 sys_ex))) = 2
   \<and> length (body_frames (snd (ensureConnected_times 2 sys_ex))) = 2
   \<and> length (listeners (snd (ensureConnected_times 2 sys_ex))) \<noteq> 1"
  by (simp add: numeral_2_eq_2 ensureConnected_def connect_with_window sys_ex_def)

subsection \<open>The handshake sends nothing\<close>

lemma fetches_append [simp]: "fetches (xs @ ys) = fetches xs @ fetches ys"
  by (simp add: fetches_def)

lemma fetches_simps [simp]:
  "fetches [] = []"
  "fetches (e # es) = (if is_fetch e then e # fetches es else fetches es)"
  by (simp_all add: fetches_def)

lemma fetches_emit_other [simp]:
  "fetches (log (emit (Uncaught err) s)) = fetches (log s)"
  "fetches (log (emit (ConsoleError err) s)) = fetches (log s)"
  "fetches (log (emit (SetInterval h d) s)) = fetches (log s)"
  "fetches (log (emit (ClearInterval h) s)) = fetches (log s)"
  by (simp_all add: fetches_def)

lemma settle_fields [simp]:
  "log (settle p out s) = log s"
  "body_frames (settle p out s) = body_frames s"
  "listeners (settle p out s) = listeners s"
  "intervals (settle p out s) = intervals s"
  "connected (settle p out s) = connected s"
  "server (settle p out s) = server s"
  "has_window (settle p out s) = has_window s"
  by (simp_all add: settle_def)

lemma challenge_response_log:
  "challenge_response l e s = Inl (err, s') \<Longrightarrow> log s' = log s"
  "challenge_response l e s = Inr s' \<Longrightarrow> log s' = log s"
  by (auto simp: challenge_response_def removeListener_def detatchFrame_def Let_def
      split: sum.splits if_splits)

lemma challenge_cancel_log:
  "challenge_cancel l s = Inl (err, s') \<Longrightarrow> log s' = log s"
  "challenge_cancel l s = Inr s' \<Longrightarrow> log s' = log s"
  by (auto simp: challenge_cancel_def removeListener_def detatchFrame_def Let_def
      split: sum.splits if_splits)

lemma handler_fetches: "fetches (log (handler l e s)) = fetches (log s)"
proof (cases "ev_origin e = server s")
  case False
  then show ?thesis by (simp add: handler_def)
next
  case True
  show ?thesis
  proof (cases "get_prop (ev_data e) ''type''")
    case (Inl err)
    with True show ?thesis by (simp add: handler_def)
  next
    case (Inr ty)
    define first where "first =
      (if ty = JStr ''FCL::CHALLENGE::RESPONSE'' then challenge_response l e s else Inr s)"
    have h: "handler l e s = run_callback (then_do first
        (\<lambda>s'. if ty = JStr ''FCL::CHALLENGE::CANCEL'' then challenge_cancel l s' else Inr s'))"
      using True Inr by (simp add: handler_def first_def)
    show ?thesis
    proof (cases first)
      case (Inl es)
      obtain err s' where es: "es = (err, s')" by (cases es)
      with Inl have "log s' = log s"
        by (auto simp: first_def dest: challenge_response_log split: if_splits)
      with Inl es show ?thesis by (simp add: h)
    next
      case (Inr s1)
      then have 1: "log s1 = log s"
        by (auto simp: first_def dest: challenge_response_log split: if_splits)
      show ?thesis
      proof (cases "ty = JStr ''FCL::CHALLENGE::CANCEL''")
        case False
        with Inr 1 show ?thesis by (simp add: h)
      next
        case c: True
        show ?thesis
        proof (cases "challenge_cancel l s1")
          case (Inl es)
          obtain err s' where es: "es = (err, s')" by (cases es)
          with Inl have "log s' = log s1" by (auto dest: challenge_cancel_log)
          with Inl es Inr c 1 show ?thesis by (simp add: h)
        next
          case r: (Inr s2)
          then have "log s2 = log s1" by (auto dest: challenge_cancel_log)
          with r Inr c 1 show ?thesis by (simp add: h)
        qed
      qed
    qed
  qed
qed

lemma fold_handler_fetches:
  "fetches (log (fold (\<lambda>l s'. if l \<in> set (listeners s') then handler l e s' else s') ls s))
     = fetches (log s)"
  by (induction ls arbitrary: s) (simp_all add: handler_fetches)

lemma dispatch_message_fetches: "fetches (log (dispatch_message e s)) = fetches (log s)"
  by (simp add: dispatch_message_def fold_handler_fetches)

lemma await_messages_fetches: "fetches (log (await_messages p es s)) = fetches (log s)"
  by (induction es arbitrary: s) (simp_all add: dispatch_message_fetches)

lemma connect_log: "log (snd (connect s)) = log s"
  by (cases "has_window s") (simp_all add: connect_with_window connect_without_window)

lemma request_connected:
  "connected s \<Longrightarrow> request w payload s = try_switch w payload s"
  by (simp add: request_def ensureConnected_def)

lemma request_unconnected:
  "\<not> connected s \<Longrightarrow>
     request w payload s =
       (case promise_state (await_messages (fst (connect s)) (messages w) (snd (connect s)))
               (fst (connect s)) of
          Pending \<Rightarrow>
            (Pending, await_messages (fst (connect s)) (messages w) (snd (connect s)))
        | Rejected r \<Rightarrow>
            (Rejected r, await_messages (fst (connect s)) (messages w) (snd (connect s)))
        | Resolved v \<Rightarrow>
            try_switch w payload
              (await_messages (fst (connect s)) (messages w) (snd (connect s))))"
  by (simp add: request_def ensureConnected_def split_beta Let_def)

lemma try_switch_unsupported:
  "method_name payload = ''signTransaction'' \<or> method_name payload = ''signAllTransactions'' \<Longrightarrow>
     try_switch w payload s =
       (Rejected (unsupported (method_name payload)),
        emit (ConsoleError (unsupported (method_name payload))) s)"
  by (auto simp: try_switch_def switch_method_def)

text \<open>
  C5, as the code has it. For \<open>signTransaction\<close> and \<open>signAllTransactions\<close>: a connected
  provider rejects the request with the error that names the method and points to
  \<open>signAndSendTransaction\<close>. A provider that is not connected runs the handshake first,
  and the request follows it: pending while no terminal message has come, rejected with
  the handshake's own rejection when the handshake fails, and rejected with that same
  error once the handshake has succeeded. In no case does the request resolve or send
  anything.
\<close>

theorem legacy_signing_rejected:
  assumes "method_name payload = ''signTransaction'' \<or> method_name payload = ''signAllTransactions''"
  shows "(connected s \<longrightarrow>
            request w payload s =
              (Rejected (unsupported (method_name payload)),
               emit (ConsoleError (unsupported (method_name payload))) s))
     \<and> (\<not> connected s \<longrightarrow>
            fst (request w payload s) =
              (case promise_state (await_messages (fst (connect s)) (messages w) (snd (connect s)))
                      (fst (connect s)) of
                 Pending \<Rightarrow> Pending
               | Rejected r \<Rightarrow> Rejected r
               | Resolved v \<Rightarrow> Rejected (unsupported (method_name payload))))
     \<and> (\<forall>v. fst (request w payload s) \<noteq> Resolved v)
     \<and> fetches (log (snd (request w payload s))) = fetches (log s)"
proof -
  let ?p = "fst (connect s)"
  let ?s2 = "await_messages ?p (messages w) (snd (connect s))"
  have log2: "fetches (log ?s2) = fetches (log s)"
    by (simp add: await_messages_fetches connect_log)
  show ?thesis
  proof (cases "connected s")
    case True
    then show ?thesis
      by (simp add: request_connected try_switch_unsupported[OF assms])
  next
    case False
    then show ?thesis
      by (cases "promise_state ?s2 ?p")
         (simp_all add: request_unconnected try_switch_unsupported[OF assms] log2)
  qed
qed

theorem legacy_signing_rejected_witness:
  "connected sys_connected
   \<and> request env_ex \<lparr>method_name = ''signTransaction'', params = JUndefined\<rparr> sys_connected
     = (Rejected (unsupported ''signTransaction''),
        sys_connected\<lparr>log := [ConsoleError (unsupported ''signTransaction'')]\<rparr>)"
  using legacy_signing_rejected[of "\<lparr>method_name = ''signTransaction'', params = JUndefined\<rparr>"
      sys_connected env_ex]
  by (simp add: sys_connected_def sys_ex_def emit_def)

text \<open>
  C5 as stated fails for a provider that is not connected: the request runs the
  handshake first, and when the wallet cancels it the request is rejected with the
  handshake's rejection (no reason), not with the error about the unsupported method;
  while no message has come it is not rejected at all.
\<close>

theorem legacy_signing_counterexample:
  "\<not> connected sys_ex
   \<and> fst (request (env_ex\<lparr>messages := [cancel_event]\<rparr>)
            \<lparr>method_name = ''signTransaction'', params = JUndefined\<rparr> sys_ex)
       = Rejected JUndefined
   \<and> Rejected JUndefined \<noteq> Rejected (unsupported ''signTransaction'')
   \<and> fst (request env_ex \<lparr>method_name = ''signTransaction'', params = JUndefined\<rparr> sys_ex)
       = Pending"
proof -
  have c: "connect sys_ex = (0, sys_waiting)" by (rule connect_sys_ex)
  have n: "\<not> connected sys_ex" by (simp add: sys_ex_def)
  have w: "promise_state sys_waiting 0 = Pending" "listeners sys_waiting = [listener_ex]"
    by (simp_all add: sys_waiting_def sys_ex_def promise_state_def)
  have h: "handler listener_ex cancel_event sys_waiting =
      sys_waiting\<lparr>listeners := [], body_frames := [], promises := [Rejected JUndefined]\<rparr>"
    by (simp add: handler_def challenge_cancel_def removeListener_def detatchFrame_def
        settle_def cancel_event_def sys_waiting_def sys_ex_def listener_ex_def)
  have d: "dispatch_message cancel_event sys_waiting =
      sys_waiting\<lparr>listeners := [], body_frames := [], promises := [Rejected JUndefined]\<rparr>"
    by (simp add: dispatch_message_def w h)
  have 1: "fst (request (env_ex\<lparr>messages := [cancel_event]\<rparr>)
            \<lparr>method_name = ''signTransaction'', params = JUndefined\<rparr> sys_ex)
       = Rejected JUndefined"
    by (simp add: request_def ensureConnected_def c n w d)
       (simp add: promise_state_def)
  have 2: "fst (request env_ex \<lparr>method_name = ''signTransaction'', params = JUndefined\<rparr> sys_ex)
       = Pending"
    by (simp add: request_def ensureConnected_def c n w env_ex_def)
  from 1 2 show ?thesis
    by (simp add: sys_ex_def unsupported_def)
qed

subsection \<open>The default branch of the router\<close>

lemma rpc_body:
  "spread [(''id'', JNum 1), (''jsonrpc'', JStr ''2.0'')]
     (JObj [(''method'', JStr m), (''params'', ps)])
   = JObj [(''id'', JNum 1), (''jsonrpc'', JStr ''2.0''), (''method'', JStr m), (''params'', ps)]"
  by (simp add: spread_def obj_set_new_name array_index_name)

lemma truthy_get_prop:
  "truthy v \<Longrightarrow> \<exists>r. get_prop v k = Inr r"
  by (cases v) simp_all

lemma try_switch_default:
  assumes "method_name payload \<notin> {''connect'', ''getAccounts'',
      ''convertToProgramWalletTransaction'', ''signAndSendTransaction'', ''signTransaction'',
      ''signAllTransactions''}"
  shows "try_switch w payload s =
    (case http w POST (Rpc (rpc s))
            (JObj [(''id'', JNum 1), (''jsonrpc'', JStr ''2.0''),
                   (''method'', JStr (method_name payload)), (''params'', params payload)]) of
       Inl err \<Rightarrow>
         (Rejected err,
          emit (ConsoleError err)
            (emit (Fetch POST (Rpc (rpc s))
               (JObj [(''id'', JNum 1), (''jsonrpc'', JStr ''2.0''),
                      (''method'', JStr (method_name payload)), (''params'', params payload)])) s))
     | Inr response \<Rightarrow>
         (Resolved (if truthy response
                    then (case get_prop response ''result'' of Inr r \<Rightarrow> r | Inl err \<Rightarrow> JUndefined)
                    else JNull),
          emit (Fetch POST (Rpc (rpc s))
               (JObj [(''id'', JNum 1), (''jsonrpc'', JStr ''2.0''),
                      (''method'', JStr (method_name payload)), (''params'', params payload)])) s))"
proof -
  have sw: "switch_method w payload s =
      (case handleReadRequests w payload s of
           (Resolved response, s1) \<Rightarrow>
             if truthy response
             then (case get_prop response ''result'' of
                     Inl err \<Rightarrow> (Rejected err, s1)
                   | Inr r \<Rightarrow> (Resolved r, s1))
             else (Resolved JNull, s1)
         | other \<Rightarrow> other)"
    using assms by (simp add: switch_method_def)
  show ?thesis
  proof (cases "http w POST (Rpc (rpc s))
            (JObj [(''id'', JNum 1), (''jsonrpc'', JStr ''2.0''),
                   (''method'', JStr (method_name payload)), (''params'', params payload)])")
    case (Inl err)
    then show ?thesis
      by (simp add: try_switch_def sw handleReadRequests_def rpc_body)
  next
    case (Inr response)
    show ?thesis
    proof (cases "truthy response")
      case True
      with truthy_get_prop obtain r where "get_prop response ''result'' = Inr r" by blast
      with Inr True show ?thesis
        by (simp add: try_switch_def sw handleReadRequests_def rpc_body)
    next
      case False
      with Inr show ?thesis
        by (simp add: try_switch_def sw handleReadRequests_def rpc_body)
    qed
  qed
qed

text \<open>
  C2, as the code has it. For a method outside the dispatch table, once the guard has
  passed (the provider is connected, or the handshake it started has succeeded),
  \<open>request\<close> posts \<open>{id: 1, jsonrpc: '2.0', method, params}\<close> to the RPC endpoint; a
  failed call rejects the request with the failure (after \<open>console.error\<close>); a reply that
  is an object gives its \<open>result\<close> property, which is \<open>undefined\<close> when the reply has
  none; a falsy reply (\<open>null\<close>, \<open>false\<close>, \<open>0\<close>, \<open>""\<close>) gives \<open>null\<close>; any other reply gives
  \<open>undefined\<close>. The reply itself is never returned.
\<close>

theorem read_request_result:
  assumes "method_name payload \<notin> {''connect'', ''getAccounts'',
      ''convertToProgramWalletTransaction'', ''signAndSendTransaction'', ''signTransaction'',
      ''signAllTransactions''}"
    and "s0 = (if connected s then s
               else await_messages (fst (connect s)) (messages w) (snd (connect s)))"
    and "connected s \<or> (\<exists>v. promise_state s0 (fst (connect s)) = Resolved v)"
    and "body = JObj [(''id'', JNum 1), (''jsonrpc'', JStr ''2.0''),
                      (''method'', JStr (method_name payload)), (''params'', params payload)]"
  shows "snd (request w payload s) =
           (case http w POST (Rpc (rpc s0)) body of
              Inl err \<Rightarrow> emit (ConsoleError err) (emit (Fetch POST (Rpc (rpc s0)) body) s0)
            | Inr response \<Rightarrow> emit (Fetch POST (Rpc (rpc s0)) body) s0)
     \<and> (\<forall>err. http w POST (Rpc (rpc s0)) body = Inl err \<longrightarrow>
           fst (request w payload s) = Rejected err)
     \<and> (\<forall>kvs v. http w POST (Rpc (rpc s0)) body = Inr (JObj kvs) \<and> map_of kvs ''result'' = Some v \<longrightarrow>
           fst (request w payload s) = Resolved v)
     \<and> (\<forall>kvs. http w POST (Rpc (rpc s0)) body = Inr (JObj kvs) \<and> map_of kvs ''result'' = None \<longrightarrow>
           fst (request w payload s) = Resolved JUndefined)
     \<and> (\<forall>response. http w POST (Rpc (rpc s0)) body = Inr response \<and> \<not> truthy response \<longrightarrow>
           fst (request w payload s) = Resolved JNull)
     \<and> (\<forall>response. http w POST (Rpc (rpc s0)) body = Inr response \<and> truthy response
             \<and> (\<forall>kvs. response \<noteq> JObj kvs) \<longrightarrow>
           fst (request w payload s) = Resolved JUndefined)"
proof -
  have req: "request w payload s = try_switch w payload s0"
  proof (cases "connected s")
    case True
    with assms(2) show ?thesis by (simp add: request_connected)
  next
    case False
    with assms(3) obtain v where "promise_state s0 (fst (connect s)) = Resolved v" by blast
    with False assms(2) show ?thesis by (simp add: request_unconnected)
  qed
  note r = req try_switch_default[OF assms(1), of w s0]
  have other: "get_prop response ''result'' = Inr JUndefined"
    if "truthy response" "\<forall>kvs. response \<noteq> JObj kvs" for response
    using that by (cases response) simp_all
  show ?thesis
    unfolding assms(4) r
    by (auto simp: other split: sum.splits)
qed

theorem read_request_result_witness:
  "connected sys_connected
   \<and> http env_ex POST (Rpc (rpc sys_connected))
       (JObj [(''id'', JNum 1), (''jsonrpc'', JStr ''2.0''), (''method'', JStr ''getBalance''),
              (''params'', JArr [JStr ''addr0''])]) = Inr rpc_error_ex
   \<and> request env_ex \<lparr>method_name = ''getBalance'', params = JArr [JStr ''addr0'']\<rparr> sys_connected
     = (Resolved JUndefined,
        sys_connected\<lparr>log :=
          [Fetch POST (Rpc ''https://api.mainnet-beta.solana.com'')
             (JObj [(''id'', JNum 1), (''jsonrpc'', JStr ''2.0''), (''method'', JStr ''getBalance''),
                    (''params'', JArr [JStr ''addr0''])])]\<rparr>)"
proof -
  let ?p = "\<lparr>method_name = ''getBalance'', params = JArr [JStr ''addr0'']\<rparr>"
  have m: "method_name ?p \<notin> {''connect'', ''getAccounts'',
      ''convertToProgramWalletTransaction'', ''signAndSendTransaction'', ''signTransaction'',
      ''signAllTransactions''}"
    by simp
  have c: "connected sys_connected" by (simp add: sys_connected_def)
  have s0: "sys_connected = (if connected sys_connected then sys_connected
       else await_messages (fst (connect sys_connected)) (messages env_ex)
              (snd (connect sys_connected)))"
    using c by simp
  have ready: "connected sys_connected
      \<or> (\<exists>v. promise_state sys_connected (fst (connect sys_connected)) = Resolved v)"
    using c by simp
  have reply: "http env_ex POST (Rpc (rpc sys_connected))
       (JObj [(''id'', JNum 1), (''jsonrpc'', JStr ''2.0''), (''method'', JStr ''getBalance''),
              (''params'', JArr [JStr ''addr0''])]) = Inr rpc_error_ex"
    by (simp add: env_ex_def)
  have none: "map_of [(''jsonrpc'', JStr ''2.0''), (''id'', JNum 1),
           (''error'', JObj [(''code'', JNum (- 32601)), (''message'', JStr ''Method not found'')])]
        ''result'' = None"
    by simp
  from read_request_result[OF m s0 ready, of _] reply none
  have "request env_ex ?p sys_connected =
      (Resolved JUndefined,
       emit (Fetch POST (Rpc (rpc sys_connected))
         (JObj [(''id'', JNum 1), (''jsonrpc'', JStr ''2.0''), (''method'', JStr ''getBalance''),
              (''params'', JArr [JStr ''addr0''])])) sys_connected)"
    by (simp add: rpc_error_ex_def prod_eq_iff)
  with c reply show ?thesis
    by (simp add: emit_def sys_connected_def sys_ex_def)
qed

text \<open>
  C2 as stated fails where the reply has no \<open>result\<close> property: for the JSON-RPC error
  reply the request resolves with \<open>undefined\<close>, not with the reply.
\<close>

theorem read_request_counterexample:
  "connected sys_connected
   \<and> http env_ex POST (Rpc (rpc sys_connected))
       (JObj [(''id'', JNum 1), (''jsonrpc'', JStr ''2.0''), (''method'', JStr ''getBalance''),
              (''params'', JArr [JStr ''addr0''])]) = Inr rpc_error_ex
   \<and> get_prop rpc_error_ex ''result'' = Inr JUndefined
   \<and> fst (request env_ex \<lparr>method_name = ''getBalance'', params = JArr [JStr ''addr0'']\<rparr>
            sys_connected) = Resolved JUndefined
   \<and> fst (request env_ex \<lparr>method_name = ''getBalance'', params = JArr [JStr ''addr0'']\<rparr>
            sys_connected) \<noteq> Resolved rpc_error_ex"
proof -
  have c: "connected sys_connected" by (simp add: sys_connected_def)
  have run: "fst (request env_ex \<lparr>method_name = ''getBalance'', params = JArr [JStr ''addr0'']\<rparr>
            sys_connected) = Resolved JUndefined"
    by (simp add: request_connected[OF c] try_switch_def switch_method_def handleReadRequests_def
        rpc_body env_ex_def rpc_error_ex_def)
  show ?thesis
    using c run by (simp add: env_ex_def) (simp add: rpc_error_ex_def)
qed

subsection \<open>The polling loop\<close>

lemma start_polling_eq:
  "start_polling aid s =
     (\<lparr>authzFrame = \<lparr>frame_id = created s, src = AuthzFrameUrl (server s) aid\<rparr>,
       pollingId = timers s, a_promise = length (promises s), authorizationId = aid\<rparr>,
      s\<lparr>created := Suc (created s),
        body_frames :=
          filter (\<lambda>g. g \<noteq> \<lparr>frame_id = created s, src = AuthzFrameUrl (server s) aid\<rparr>)
            (body_frames s)
          @ [\<lparr>frame_id = created s, src = AuthzFrameUrl (server s) aid\<rparr>],
        promises := promises s @ [Pending],
        intervals := intervals s @ [(timers s, 1000)],
        timers := Suc (timers s),
        log := log s @ [SetInterval (timers s) 1000]\<rparr>)"
  by (simp add: start_polling_def createFrame_def attachFrame_def new_promise_def
      setInterval_def emit_def)

lemma start_polling_live: "start_polling aid s = (fl, s') \<Longrightarrow> live fl s'"
  by (auto simp: start_polling_eq live_def promise_state_def timer_active_def nth_append)

lemma live_tick:
  "live fl s \<Longrightarrow> poll_step fl Tick (n, s) = (Suc n, pollAuthzStatus fl s)"
  "live fl s \<Longrightarrow> live fl (pollAuthzStatus fl s)"
  by (auto simp: live_def pollAuthzStatus_def promise_state_def timer_active_def)

lemma start_polling_flow: "fst (start_polling aid s) = flow_of s aid"
  by (simp add: start_polling_eq flow_of_def)

lemma get_prop_readable: "get_prop j k = Inr v \<Longrightarrow> \<exists>v'. get_prop j k' = Inr v'"
  by (cases j) simp_all

lemma on_poll_reply_continue:
  assumes "get_prop j ''status'' = Inr st"
    and "st \<noteq> JStr ''APPROVED''" and "st \<noteq> JStr ''DECLINED''"
  shows "on_poll_reply fl (Inr j) s = s"
proof -
  from get_prop_readable[OF assms(1)] obtain h where "get_prop j ''transactionHash'' = Inr h"
    by blast
  with assms show ?thesis by (simp add: on_poll_reply_def)
qed

lemma detach_clear_fields [simp]:
  "promises (clearInterval h s) = promises s"
  "body_frames (clearInterval h s) = body_frames s"
  "log (clearInterval h s) = log s @ [ClearInterval h]"
  "intervals (clearInterval h s) = filter (\<lambda>(i, period). i \<noteq> h) (intervals s)"
  "server (clearInterval h s) = server s"
  by (simp_all add: clearInterval_def)

lemma not_active_after_clear: "\<not> timer_active h (settle p out (clearInterval h s))"
  by (auto simp: timer_active_def)

lemma on_poll_reply_approved:
  assumes "live fl s"
    and "get_prop j ''status'' = Inr (JStr ''APPROVED'')"
    and "get_prop j ''transactionHash'' = Inr h"
  shows "on_poll_reply fl (Inr j) s =
     settle (a_promise fl) (Resolved h)
       (clearInterval (pollingId fl)
          (s\<lparr>body_frames := filter (\<lambda>g. g \<noteq> authzFrame fl) (body_frames s)\<rparr>))"
  using assms
  by (simp add: on_poll_reply_def approved_def detatchFrame_def live_def)


lemma terminal_state:
  assumes "live fl s"
    and "s' = settle (a_promise fl) out
       (clearInterval (pollingId fl)
          (s\<lparr>body_frames := filter (\<lambda>g. g \<noteq> authzFrame fl) (body_frames s)\<rparr>))"
  shows "promise_state s' (a_promise fl) = out" and "released fl s'"
    and "log s' = log s @ [ClearInterval (pollingId fl)]"
  using assms(1) unfolding assms(2)
  by (auto simp: live_def promise_state_def settle_def released_def timer_active_def)




lemma handleSign_browser:
  assumes "has_window s"
    and "http w POST (AuthzUrl (server s) (code s))
           (spread [(''sessionId'', code s)] (params payload)) = Inr json"
    and "get_prop json ''authorizationId'' = Inr aid"
    and "s1 = emit (Fetch POST (AuthzUrl (server s) (code s))
                      (spread [(''sessionId'', code s)] (params payload))) s"
  shows "handleSignAndSendTransaction w payload s =
     (promise_state
        (snd (await_polls (fst (start_polling aid s1)) (polls w) (0, snd (start_polling aid s1))))
        (a_promise (fst (start_polling aid s1))),
      snd (await_polls (fst (start_polling aid s1)) (polls w) (0, snd (start_polling aid s1))))"
  using assms
  by (simp add: handleSignAndSendTransaction_def Let_def split_beta)




lemma settled_not_live: "promise_state s (a_promise fl) \<noteq> Pending \<Longrightarrow> \<not> live fl s"
  by (simp add: live_def)










lemma handleSign_flow:
  assumes "has_window s"
    and "http w POST (AuthzUrl (server s) (code s))
           (spread [(''sessionId'', code s)] (params payload)) = Inr json"
    and "get_prop json ''authorizationId'' = Inr aid"
    and "s5 = snd (start_polling aid
                (emit (Fetch POST (AuthzUrl (server s) (code s))
                         (spread [(''sessionId'', code s)] (params payload))) s))"
  shows "live (flow_of s aid) s5"
    and "log s5 = log s @ [Fetch POST (AuthzUrl (server s) (code s))
                            (spread [(''sessionId'', code s)] (params payload)),
                          SetInterval (timers s) 1000]"
    and "server s5 = server s"
    and "handleSignAndSendTransaction w payload s =
         (promise_state (snd (await_polls (flow_of s aid) (polls w) (0, s5)))
            (a_promise (flow_of s aid)),
          snd (await_polls (flow_of s aid) (polls w) (0, s5)))"
proof -
  define s1 where "s1 = emit (Fetch POST (AuthzUrl (server s) (code s))
                      (spread [(''sessionId'', code s)] (params payload))) s"
  have fl: "fst (start_polling aid s1) = flow_of s aid"
    using start_polling_flow[of aid s1] by (simp add: s1_def flow_of_def)
  have st: "start_polling aid s1 = (flow_of s aid, s5)"
    using fl assms(4) by (simp add: s1_def prod_eq_iff)
  show "live (flow_of s aid) s5" using st by (rule start_polling_live)
  show "log s5 = log s @ [Fetch POST (AuthzUrl (server s) (code s))
                            (spread [(''sessionId'', code s)] (params payload)),
                          SetInterval (timers s) 1000]"
    and "server s5 = server s"
    using st by (auto simp: start_polling_eq s1_def)
  from handleSign_browser[OF assms(1-3) s1_def] st show
    "handleSignAndSendTransaction w payload s =
         (promise_state (snd (await_polls (flow_of s aid) (polls w) (0, s5)))
            (a_promise (flow_of s aid)),
          snd (await_polls (flow_of s aid) (polls w) (0, s5)))"
    by simp
qed

text \<open>
  C7, as the code has it. In a page, once the backend has answered the authorize call
  with an id, and when every status reply arrives before the timer expires again (so
  the schedule is: expiry, reply, expiry, reply, expiry, reply), with the replies
  carrying the statuses \<open>PENDING\<close>, \<open>PENDING\<close> and \<open>APPROVED\<close> with hash \<open>h\<close>: the call
  resolves with \<open>h\<close>; after the authorize call it has started one timer of period 1000,
  sent exactly three status requests and cleared the timer; the timer is not running
  and the authorization frame is not attached.
\<close>

theorem authorization_approved_after_three_polls:
  assumes "has_window s"
    and "http w POST (AuthzUrl (server s) (code s))
           (spread [(''sessionId'', code s)] (params payload)) = Inr json"
    and "get_prop json ''authorizationId'' = Inr aid"
    and "polls w = [Tick, Reply (Inr j1), Tick, Reply (Inr j2), Tick, Reply (Inr j3)]"
    and "get_prop j1 ''status'' = Inr (JStr ''PENDING'')"
    and "get_prop j2 ''status'' = Inr (JStr ''PENDING'')"
    and "get_prop j3 ''status'' = Inr (JStr ''APPROVED'')"
    and "get_prop j3 ''transactionHash'' = Inr h"
  shows "fst (handleSignAndSendTransaction w payload s) = Resolved h
     \<and> log (snd (handleSignAndSendTransaction w payload s)) =
         log s @
         [Fetch POST (AuthzUrl (server s) (code s))
            (spread [(''sessionId'', code s)] (params payload)),
          SetInterval (timers s) 1000,
          Fetch GET (AuthzStatusUrl (server s) aid) JUndefined,
          Fetch GET (AuthzStatusUrl (server s) aid) JUndefined,
          Fetch GET (AuthzStatusUrl (server s) aid) JUndefined,
          ClearInterval (timers s)]
     \<and> \<not> timer_active (timers s) (snd (handleSignAndSendTransaction w payload s))
     \<and> \<lparr>frame_id = created s, src = AuthzFrameUrl (server s) aid\<rparr>
         \<notin> set (body_frames (snd (handleSignAndSendTransaction w payload s)))"
proof -
  define fl where "fl = flow_of s aid"
  define s5 where "s5 = snd (start_polling aid
                (emit (Fetch POST (AuthzUrl (server s) (code s))
                         (spread [(''sessionId'', code s)] (params payload))) s))"
  note f = handleSign_flow[OF assms(1-3) s5_def]
  have l5: "live fl s5"
    and log5: "log s5 = log s @ [Fetch POST (AuthzUrl (server s) (code s))
                            (spread [(''sessionId'', code s)] (params payload)),
                          SetInterval (timers s) 1000]"
    and srv: "server s5 = server s"
    and hs: "handleSignAndSendTransaction w payload s =
         (promise_state (snd (await_polls fl (polls w) (0, s5))) (a_promise fl),
          snd (await_polls fl (polls w) (0, s5)))"
    unfolding fl_def using f by simp_all
  have fl: "authzFrame fl = \<lparr>frame_id = created s, src = AuthzFrameUrl (server s) aid\<rparr>"
    "pollingId fl = timers s" "authorizationId fl = aid"
    by (simp_all add: fl_def flow_of_def)
  define q where "q = Fetch GET (AuthzStatusUrl (server s) aid) JUndefined"
  have poll: "pollAuthzStatus fl t = emit q t" if "server t = server s" for t
    using that by (simp add: pollAuthzStatus_def q_def fl)
  let ?s6 = "pollAuthzStatus fl s5"
  let ?s7 = "pollAuthzStatus fl ?s6"
  let ?s8 = "pollAuthzStatus fl ?s7"
  have l6: "live fl ?s6" using l5 by (rule live_tick)
  have l7: "live fl ?s7" using l6 by (rule live_tick)
  have l8: "live fl ?s8" using l7 by (rule live_tick)
  have cont: "on_poll_reply fl (Inr j1) t = t" "on_poll_reply fl (Inr j2) t = t" for t
    using assms(5,6) by (simp_all add: on_poll_reply_continue)
  define s9 where "s9 = on_poll_reply fl (Inr j3) ?s8"
  have s9: "s9 = settle (a_promise fl) (Resolved h)
       (clearInterval (pollingId fl)
          (?s8\<lparr>body_frames := filter (\<lambda>g. g \<noteq> authzFrame fl) (body_frames ?s8)\<rparr>))"
    unfolding s9_def by (rule on_poll_reply_approved[OF l8 assms(7,8)])
  note t = terminal_state[OF l8 s9]
  have p: "promise_state s5 (a_promise fl) = Pending"
    "promise_state ?s6 (a_promise fl) = Pending"
    "promise_state ?s7 (a_promise fl) = Pending"
    "promise_state ?s8 (a_promise fl) = Pending"
    using l5 l6 l7 l8 by (simp_all add: live_def)
  have ta: "timer_active (pollingId fl) s5" "timer_active (pollingId fl) ?s6"
    "timer_active (pollingId fl) ?s7"
    using l5 l6 l7 by (simp_all add: live_def)
  have run: "await_polls fl (polls w) (0, s5) = (0, s9)"
    unfolding assms(4)
    by (simp add: p ta cont s9_def)
  have h: "handleSignAndSendTransaction w payload s = (promise_state s9 (a_promise fl), s9)"
    using hs run by simp
  have logs: "log s9 = log s @
         [Fetch POST (AuthzUrl (server s) (code s))
            (spread [(''sessionId'', code s)] (params payload)),
          SetInterval (timers s) 1000, q, q, q, ClearInterval (timers s)]"
    by (simp add: t(3) fl poll srv log5)
  from t(1,2) logs show ?thesis
    by (simp add: h released_def fl q_def)
qed

lemma authorize_ex:
  "http env_ex POST (AuthzUrl (server sys_connected) (code sys_connected))
           (spread [(''sessionId'', code sys_connected)] (params payload_ex))
       = Inr (JObj [(''authorizationId'', JStr ''a1'')])"
  "get_prop (JObj [(''authorizationId'', JStr ''a1'')]) ''authorizationId'' = Inr (JStr ''a1'')"
  "has_window sys_connected"
  by (simp_all add: env_ex_def sys_connected_def sys_ex_def)

theorem authorization_approved_after_three_polls_witness:
  "has_window sys_connected
   \<and> fst (handleSignAndSendTransaction env_approved payload_ex sys_connected) = Resolved (JStr ''H'')
   \<and> log (snd (handleSignAndSendTransaction env_approved payload_ex sys_connected)) =
       [Fetch POST (AuthzUrl ''https://wallet.example'' (JStr ''c0''))
          (JObj [(''sessionId'', JStr ''c0''), (''message'', JStr ''0a'')]),
        SetInterval 0 1000,
        Fetch GET (AuthzStatusUrl ''https://wallet.example'' (JStr ''a1'')) JUndefined,
        Fetch GET (AuthzStatusUrl ''https://wallet.example'' (JStr ''a1'')) JUndefined,
        Fetch GET (AuthzStatusUrl ''https://wallet.example'' (JStr ''a1'')) JUndefined,
        ClearInterval 0]
   \<and> \<not> timer_active 0 (snd (handleSignAndSendTransaction env_approved payload_ex sys_connected))"
proof -
  have sched: "polls env_approved =
      [Tick, Reply (Inr (JObj [(''status'', JStr ''PENDING'')])), Tick,
       Reply (Inr (JObj [(''status'', JStr ''PENDING'')])), Tick,
       Reply (Inr (JObj [(''status'', JStr ''APPROVED''), (''transactionHash'', JStr ''H'')]))]"
    by (simp add: env_approved_def pending_reply_def approved_reply_def)
  have st: "get_prop (JObj [(''status'', JStr ''PENDING'')]) ''status'' = Inr (JStr ''PENDING'')"
    "get_prop (JObj [(''status'', JStr ''APPROVED''), (''transactionHash'', JStr ''H'')]) ''status''
       = Inr (JStr ''APPROVED'')"
    "get_prop (JObj [(''status'', JStr ''APPROVED''), (''transactionHash'', JStr ''H'')])
       ''transactionHash'' = Inr (JStr ''H'')"
    by simp_all
  have post: "http env_approved POST (AuthzUrl (server sys_connected) (code sys_connected))
           (spread [(''sessionId'', code sys_connected)] (params payload_ex))
       = Inr (JObj [(''authorizationId'', JStr ''a1'')])"
    using authorize_ex(1) by (simp add: env_approved_def)
  from authorization_approved_after_three_polls[OF authorize_ex(3) post authorize_ex(2) sched st(1) st(1) st(2) st(3)]
    authorize_ex(3)
  show ?thesis
    by (simp add: sys_connected_def sys_ex_def payload_ex_def spread_message)
qed

text \<open>
  C7 as stated fails when a reply is slow. With the same statuses in the same order,
  but the second reply arriving only after the timer has expired a third time and the
  approval only after a fourth expiry, the call resolves with the hash after four
  status requests, not three.
\<close>

theorem three_polls_counterexample:
  "polls env_slow = [Tick, Reply pending_reply, Tick, Tick, Reply pending_reply, Tick,
                     Reply (approved_reply (JStr ''H''))]
   \<and> fst (handleSignAndSendTransaction env_slow payload_ex sys_connected) = Resolved (JStr ''H'')
   \<and> log (snd (handleSignAndSendTransaction env_slow payload_ex sys_connected)) =
       [Fetch POST (AuthzUrl ''https://wallet.example'' (JStr ''c0''))
          (JObj [(''sessionId'', JStr ''c0''), (''message'', JStr ''0a'')]),
        SetInterval 0 1000,
        Fetch GET (AuthzStatusUrl ''https://wallet.example'' (JStr ''a1'')) JUndefined,
        Fetch GET (AuthzStatusUrl ''https://wallet.example'' (JStr ''a1'')) JUndefined,
        Fetch GET (AuthzStatusUrl ''https://wallet.example'' (JStr ''a1'')) JUndefined,
        Fetch GET (AuthzStatusUrl ''https://wallet.example'' (JStr ''a1'')) JUndefined,
        ClearInterval 0]
   \<and> length (fetches (log (snd (handleSignAndSendTransaction env_slow payload_ex sys_connected))))
       = 5"
proof -
  have run: "handleSignAndSendTransaction env_slow payload_ex sys_connected =
    (Resolved (JStr ''H''),
     sys_connected\<lparr>created := 1, promises := [Resolved (JStr ''H'')], timers := 1,
       log := [Fetch POST (AuthzUrl ''https://wallet.example'' (JStr ''c0''))
          (JObj [(''sessionId'', JStr ''c0''), (''message'', JStr ''0a'')]),
        SetInterval 0 1000,
        Fetch GET (AuthzStatusUrl ''https://wallet.example'' (JStr ''a1'')) JUndefined,
        Fetch GET (AuthzStatusUrl ''https://wallet.example'' (JStr ''a1'')) JUndefined,
        Fetch GET (AuthzStatusUrl ''https://wallet.example'' (JStr ''a1'')) JUndefined,
        Fetch GET (AuthzStatusUrl ''https://wallet.example'' (JStr ''a1'')) JUndefined,
        ClearInterval 0]\<rparr>)"
    by (simp add: handleSignAndSendTransaction_def env_slow_def env_ex_def payload_ex_def
        sys_connected_def sys_ex_def spread_message start_polling_eq Let_def pending_reply_def
        approved_reply_def timer_active_def promise_state_def pollAuthzStatus_def
        on_poll_reply_def approved_def detatchFrame_def settle_def clearInterval_def emit_def)
  show ?thesis
    unfolding run by (simp add: env_slow_def env_ex_def)
qed




end
